theory Spec2Isabelle
  imports Main "HOL-Library.AList" "HOL-Library.Char_ord"
begin

section \<open>Values, documents and errors\<close>

text \<open>
  The methods of \<^verbatim>\<open>slots.methods.js\<close> (slots and response templates) and the
  schema of \<^verbatim>\<open>user.schema.js\<close>. A method is a function from the database to a
  result and the database after the call; what it throws is a value of type \<open>error\<close>.
  Numbers are integers here (no slot or template field is computed with).
\<close>

datatype jsval =
    JUndefined
  | JNull
  | JBool bool
  | JNum int
  | JStr string
  | JArr "jsval list"
  | JObj "(string \<times> jsval) list"

text \<open>What \<^verbatim>\<open>if (v)\<close> takes as true.\<close>

fun truthy :: "jsval \<Rightarrow> bool" where
  "truthy JUndefined = False"
| "truthy JNull = False"
| "truthy (JBool b) = b"
| "truthy (JNum n) = (n \<noteq> 0)"
| "truthy (JStr s) = (s \<noteq> [])"
| "truthy (JArr xs) = True"
| "truthy (JObj kvs) = True"

text \<open>A slot is a plain object: its own properties, in order.\<close>

type_synonym slot = "(string \<times> jsval) list"

text \<open>Reading a property: one the object does not have reads as \<^verbatim>\<open>undefined\<close>.\<close>

definition field :: "slot \<Rightarrow> string \<Rightarrow> jsval" where
  "field obj k = (case map_of obj k of None \<Rightarrow> JUndefined | Some v \<Rightarrow> v)"

text \<open>An error of the store's driver: \<^verbatim>\<open>e.code\<close> (absent on most) and its message.\<close>

datatype store_error = StoreErr (err_code: "int option") (errmsg: string)

text \<open>
  Everything a method can throw. \<open>Meteor_Error\<close> is \<^verbatim>\<open>new Meteor.Error(error, reason)\<close>;
  its first argument is a number, a string or, in \<^verbatim>\<open>new Meteor.Error(e)\<close>, the error
  that was caught. \<open>TypeError\<close> and \<open>SyntaxError\<close> are the runtime's own faults;
  \<open>StoreFailure\<close> is a driver error that nothing caught.
\<close>

datatype error =
    Meteor_Error merror "string option"
  | Forbidden
  | ValidationError
  | TypeError
  | SyntaxError
  | StoreFailure store_error
and merror =
    ErrNum int
  | ErrStr string
  | ErrObj error

text \<open>\<^verbatim>\<open>e.code\<close>: only a driver error carries one.\<close>

fun error_code :: "error \<Rightarrow> int option" where
  "error_code (StoreFailure se) = err_code se"
| "error_code (Meteor_Error c r) = None"
| "error_code Forbidden = None"
| "error_code ValidationError = None"
| "error_code TypeError = None"
| "error_code SyntaxError = None"

section \<open>Templates and projects\<close>

record fragment =
  content :: string

record localized =
  lang :: string
  sequence :: "fragment list"

text \<open>
  A template: its \<^verbatim>\<open>key\<close>, its \<^verbatim>\<open>values\<close> (field \<open>tvalues\<close>) and the intents of its
  \<^verbatim>\<open>match.nlu\<close> entries (what the path \<^verbatim>\<open>match.nlu.intent\<close> reaches).
\<close>

record template =
  key :: string
  tvalues :: "localized list"
  match_nlu_intents :: "string list"

record project =
  project_id :: string
  templates :: "template list"
  responsesUpdatedAt :: "int option"

section \<open>The store\<close>

datatype store_op = Op_insert | Op_update | Op_remove | Op_find

text \<open>
  The two collections, each the list of its documents, and the log of the store calls
  made so far (a call is logged whether it goes through or fails). \<^verbatim>\<open>Slots\<close> and
  \<^verbatim>\<open>Projects\<close> are Mongo collections declared outside these sources; a call on them
  does what the store does with the selector, the modifier and the \<^verbatim>\<open>fields\<close> option that
  the method sends, and only those are modelled.
\<close>

record db =
  Slots :: "slot list"
  Projects :: "project list"
  oplog :: "store_op list"

text \<open>
  What a call depends on besides its arguments and the database. The collaborators that
  are not among the sources are fields here: \<open>can\<close> (the decision of
  \<^verbatim>\<open>checkIfCan\<close> for the caller), \<open>slotSchemas\<close> (the table of
  \<^verbatim>\<open>slots.schema\<close>, read with a slot's type, each entry whether \<^verbatim>\<open>validate\<close> accepts
  the slot), \<open>formatNewlines\<close>, \<open>formatError\<close>, \<open>safeDump_text\<close> (js-yaml's
  \<^verbatim>\<open>safeDump({ text: key })\<close>), \<open>JSON_parse\<close> (\<open>None\<close> when \<^verbatim>\<open>JSON.parse\<close> throws),
  \<open>now\<close> (\<^verbatim>\<open>Date.now()\<close> during the call), \<open>gen_id\<close> (the identifier the
  collection gives a document inserted without one) and \<open>store_fault\<close>: whether the
  driver fails the n-th store call (counted over the log), and with which error.
\<close>

record env =
  can :: "string list \<Rightarrow> string \<Rightarrow> bool"
  slotSchemas :: "jsval \<Rightarrow> (slot \<Rightarrow> bool) option"
  formatNewlines :: "fragment list \<Rightarrow> fragment list"
  formatError :: "error \<Rightarrow> error"
  safeDump_text :: "string \<Rightarrow> string"
  JSON_parse :: "string \<Rightarrow> template list option"
  now :: int
  gen_id :: "nat \<Rightarrow> string"
  store_fault :: "nat \<Rightarrow> store_error option"

type_synonym 'a meth = "db \<Rightarrow> (error + 'a) \<times> db"

definition ret :: "'a \<Rightarrow> 'a meth" where
  "ret x s = (Inr x, s)"

definition throw :: "error \<Rightarrow> 'a meth" where
  "throw e s = (Inl e, s)"

definition and_then :: "'a meth \<Rightarrow> ('a \<Rightarrow> 'b meth) \<Rightarrow> 'b meth" where
  "and_then m f s = (case m s of (Inl e, s') \<Rightarrow> (Inl e, s') | (Inr x, s') \<Rightarrow> f x s')"

text \<open>\<^verbatim>\<open>try { m } catch (e) { h(e) }\<close>: the handler gets whatever the block threw.\<close>

definition try_catch :: "'a meth \<Rightarrow> (error \<Rightarrow> 'a meth) \<Rightarrow> 'a meth" where
  "try_catch m h s = (case m s of (Inl e, s') \<Rightarrow> h e s' | (Inr x, s') \<Rightarrow> (Inr x, s'))"

text \<open>Every store call starts here: it is logged, and the driver may fail it.\<close>

definition store_call :: "env \<Rightarrow> store_op \<Rightarrow> unit meth" where
  "store_call e c s =
     (case store_fault e (length (oplog s)) of
        Some err \<Rightarrow> (Inl (StoreFailure err), s\<lparr>oplog := oplog s @ [c]\<rparr>)
      | None \<Rightarrow> (Inr (), s\<lparr>oplog := oplog s @ [c]\<rparr>))"

text \<open>An update without \<^verbatim>\<open>multi\<close> changes the first document its selector matches.\<close>

fun update_first_where :: "('a \<Rightarrow> bool) \<Rightarrow> ('a \<Rightarrow> 'a) \<Rightarrow> 'a list \<Rightarrow> 'a list" where
  "update_first_where P f [] = []"
| "update_first_where P f (x # xs) = (if P x then f x # xs else x # update_first_where P f xs)"

subsection \<open>The slots collection\<close>

text \<open>
  How a selector's value matches a document's: equal, or an element of the document's
  array, or \<^verbatim>\<open>null\<close> against a missing field.
\<close>

definition val_matches :: "jsval \<Rightarrow> jsval \<Rightarrow> bool" where
  "val_matches sel dv =
     (dv = sel \<or> (case dv of JArr xs \<Rightarrow> sel \<in> set xs | _ \<Rightarrow> False) \<or> (sel = JNull \<and> dv = JUndefined))"

definition doc_matches :: "slot \<Rightarrow> slot \<Rightarrow> bool" where
  "doc_matches sel d = list_all (\<lambda>(k, v). val_matches v (field d k)) sel"

text \<open>
  \<^verbatim>\<open>Slots.insert(slot)\<close>. The collection refuses an \<^verbatim>\<open>_id\<close> that is not a non-empty
  string, gives a slot without one a generated identifier, and answers a second document
  with the same \<^verbatim>\<open>_id\<close> by the duplicate-key error, code 11000. A unique index declared
  outside these sources answers the same way, through \<open>store_fault\<close>.
\<close>

definition Slots_insert :: "env \<Rightarrow> slot \<Rightarrow> jsval meth" where
  "Slots_insert e slot =
     and_then (store_call e Op_insert) (\<lambda>_ s.
       (case map_of slot ''_id'' of
          None \<Rightarrow>
            (let i = JStr (gen_id e (length (oplog s))) in
             if list_ex (\<lambda>d. field d ''_id'' = i) (Slots s)
             then (Inl (StoreFailure (StoreErr (Some 11000) ''E11000 duplicate key error'')), s)
             else (Inr i, s\<lparr>Slots := Slots s @ [(''_id'', i) # slot]\<rparr>))
        | Some (JStr i) \<Rightarrow>
            if i = [] then (Inl (StoreFailure (StoreErr None ''Meteor requires document _id fields to be non-empty strings or ObjectIDs'')), s)
            else if list_ex (\<lambda>d. field d ''_id'' = JStr i) (Slots s)
            then (Inl (StoreFailure (StoreErr (Some 11000) ''E11000 duplicate key error'')), s)
            else (Inr (JStr i), s\<lparr>Slots := Slots s @ [slot]\<rparr>)
        | Some other \<Rightarrow>
            (Inl (StoreFailure (StoreErr None ''Meteor requires document _id fields to be non-empty strings or ObjectIDs'')), s)))"

text \<open>
  \<^verbatim>\<open>Slots.update({ _id: slot._id }, { $set: slot })\<close>: \<^verbatim>\<open>$set\<close> assigns each field of
  its argument in the matched document and leaves the document's other fields as they
  are. A selector whose \<^verbatim>\<open>_id\<close> is falsy matches nothing. The result is the number of
  documents matched.
\<close>

definition Slots_update_set :: "env \<Rightarrow> jsval \<Rightarrow> slot \<Rightarrow> nat meth" where
  "Slots_update_set e i fs =
     and_then (store_call e Op_update) (\<lambda>_ s.
       if truthy i \<and> list_ex (\<lambda>d. field d ''_id'' = i) (Slots s)
       then (Inr 1, s\<lparr>Slots := update_first_where (\<lambda>d. field d ''_id'' = i) (\<lambda>d. AList.merge d fs) (Slots s)\<rparr>)
       else (Inr 0, s))"

text \<open>\<^verbatim>\<open>Slots.remove(slot)\<close>: the slot is the selector; every document it matches goes.\<close>

definition Slots_remove :: "env \<Rightarrow> slot \<Rightarrow> nat meth" where
  "Slots_remove e sel =
     and_then (store_call e Op_remove) (\<lambda>_ s.
       if map_of sel ''_id'' \<noteq> None \<and> \<not> truthy (field sel ''_id'') then (Inr 0, s)
       else (Inr (length (filter (doc_matches sel) (Slots s))),
             s\<lparr>Slots := filter (\<lambda>d. \<not> doc_matches sel d) (Slots s)\<rparr>))"

text \<open>\<^verbatim>\<open>Slots.find({ projectId }).fetch()\<close>.\<close>

definition Slots_find_projectId :: "env \<Rightarrow> string \<Rightarrow> slot list meth" where
  "Slots_find_projectId e projectId =
     and_then (store_call e Op_find) (\<lambda>_ s.
       (Inr (filter (\<lambda>d. val_matches (JStr projectId) (field d ''projectId'')) (Slots s)), s))"

subsection \<open>The projects collection\<close>

text \<open>
  A selector is \<^verbatim>\<open>{ _id: projectId }\<close>, with \<^verbatim>\<open>'templates.key': key\<close> (or the
  \<^verbatim>\<open>$elemMatch\<close> on the key, which selects the same documents) when a key is given.
\<close>

definition selects :: "string \<Rightarrow> string option \<Rightarrow> project \<Rightarrow> bool" where
  "selects pid tkey p =
     (project_id p = pid \<and>
      (case tkey of None \<Rightarrow> True | Some k \<Rightarrow> list_ex (\<lambda>t. key t = k) (templates p)))"

text \<open>
  The modifiers the methods send. The positional \<^verbatim>\<open>$\<close> is the first template with the
  selector's key. \<^verbatim>\<open>$pull: { templates: { key } }\<close> is \<open>Pull_templates_keys [key]\<close>, and
  \<^verbatim>\<open>$push: { templates: t }\<close> is \<open>Push_templates [t]\<close>.
\<close>

datatype modifier =
    Set_templates_pos template
  | Set_responsesUpdatedAt int
  | Pull_templates_keys "string list"
  | Push_templates "template list"
  | Push_values_pos localized

fun apply_modifier :: "string option \<Rightarrow> modifier \<Rightarrow> project \<Rightarrow> project" where
  "apply_modifier pos (Set_templates_pos item) p =
     (case pos of
        None \<Rightarrow> p
      | Some k \<Rightarrow> p\<lparr>templates := update_first_where (\<lambda>t. key t = k) (\<lambda>t. item) (templates p)\<rparr>)"
| "apply_modifier pos (Set_responsesUpdatedAt n) p = p\<lparr>responsesUpdatedAt := Some n\<rparr>"
| "apply_modifier pos (Pull_templates_keys ks) p =
     p\<lparr>templates := filter (\<lambda>t. key t \<notin> set ks) (templates p)\<rparr>"
| "apply_modifier pos (Push_templates ts) p = p\<lparr>templates := templates p @ ts\<rparr>"
| "apply_modifier pos (Push_values_pos v) p =
     (case pos of
        None \<Rightarrow> p
      | Some k \<Rightarrow> p\<lparr>templates := update_first_where (\<lambda>t. key t = k)
                                   (\<lambda>t. t\<lparr>tvalues := tvalues t @ [v]\<rparr>) (templates p)\<rparr>)"

definition apply_modifiers :: "string option \<Rightarrow> modifier list \<Rightarrow> project \<Rightarrow> project" where
  "apply_modifiers pos mods p = fold (apply_modifier pos) mods p"

text \<open>
  \<^verbatim>\<open>Projects.update(selector, modifiers)\<close>: the first project the selector matches is
  modified; the result is the number of projects matched, 0 or 1.
\<close>

definition Projects_update_mods :: "env \<Rightarrow> string \<Rightarrow> string option \<Rightarrow> modifier list \<Rightarrow> nat meth" where
  "Projects_update_mods e pid tkey mods =
     and_then (store_call e Op_update) (\<lambda>_ s.
       if list_ex (selects pid tkey) (Projects s)
       then (Inr 1, s\<lparr>Projects := update_first_where (selects pid tkey)
                                     (apply_modifiers tkey mods) (Projects s)\<rparr>)
       else (Inr 0, s))"

text \<open>
  What a query returns of a document: its \<^verbatim>\<open>_id\<close> and, by the \<^verbatim>\<open>fields\<close> option, its
  templates, or only the first template an \<^verbatim>\<open>$elemMatch\<close> matches (the field is absent
  when none does).
\<close>

record projection =
  p_id :: string
  p_templates :: "template list option"

datatype fields_option =
    Fields_templates
  | ElemMatch_key string
  | ElemMatch_intent string

fun project_fields :: "fields_option \<Rightarrow> project \<Rightarrow> projection" where
  "project_fields Fields_templates p = \<lparr>p_id = project_id p, p_templates = Some (templates p)\<rparr>"
| "project_fields (ElemMatch_key k) p =
     \<lparr>p_id = project_id p,
      p_templates = (case find (\<lambda>t. key t = k) (templates p) of None \<Rightarrow> None | Some t \<Rightarrow> Some [t])\<rparr>"
| "project_fields (ElemMatch_intent i) p =
     \<lparr>p_id = project_id p,
      p_templates = (case find (\<lambda>t. i \<in> set (match_nlu_intents t)) (templates p) of
                       None \<Rightarrow> None | Some t \<Rightarrow> Some [t])\<rparr>"

definition Projects_find :: "env \<Rightarrow> string \<Rightarrow> string option \<Rightarrow> fields_option \<Rightarrow> projection list meth" where
  "Projects_find e pid tkey fo =
     and_then (store_call e Op_find) (\<lambda>_ s.
       (Inr (map (project_fields fo) (filter (selects pid tkey) (Projects s))), s))"

definition Projects_findOne :: "env \<Rightarrow> string \<Rightarrow> string option \<Rightarrow> fields_option \<Rightarrow> projection option meth" where
  "Projects_findOne e pid tkey fo =
     and_then (store_call e Op_find) (\<lambda>_ s.
       (Inr (map_option (project_fields fo) (find (selects pid tkey) (Projects s))), s))"

section \<open>The slot methods\<close>

text \<open>
  Modelled from the spec: \<^verbatim>\<open>checkIfCan\<close> (lib/scopes is not among the sources). The
  permission check is raised by the policy collaborator; a call that passes it goes on.
  A single scope is the list of that scope.
\<close>

definition checkIfCan :: "env \<Rightarrow> string list \<Rightarrow> string \<Rightarrow> unit meth" where
  "checkIfCan e scopes projectId = (if can e scopes projectId then ret () else throw Forbidden)"

text \<open>
  \<^verbatim>\<open>validateSchema\<close>. Reading \<^verbatim>\<open>.validate\<close> of a table entry that does not exist is a
  \<open>TypeError\<close>; a schema that rejects the slot throws \<open>ValidationError\<close>.
\<close>

definition validateSchema :: "env \<Rightarrow> slot \<Rightarrow> unit meth" where
  "validateSchema e slot =
     (if truthy (field slot ''type'')
      then (case slotSchemas e (field slot ''type'') of
              None \<Rightarrow> throw TypeError
            | Some accepts \<Rightarrow> if accepts slot then ret () else throw ValidationError)
      else throw (Meteor_Error (ErrStr ''400'') None))"

definition handleError :: "error \<Rightarrow> 'a meth" where
  "handleError e =
     (if error_code e = Some 11000
      then throw (Meteor_Error (ErrNum 400) (Some ''Slot already exists''))
      else throw (Meteor_Error (ErrNum 500) (Some ''Server Error'')))"

text \<open>
  The two \<^verbatim>\<open>check\<close> calls of each method hold by the types: the slot is an object and
  the project identifier a string.
\<close>

definition slots_insert :: "env \<Rightarrow> slot \<Rightarrow> string \<Rightarrow> jsval meth" where
  "slots_insert e slot projectId =
     and_then (checkIfCan e [''stories:w''] projectId) (\<lambda>_.
     and_then (validateSchema e slot) (\<lambda>_.
     try_catch (Slots_insert e slot) handleError))"

definition slots_update :: "env \<Rightarrow> slot \<Rightarrow> string \<Rightarrow> nat meth" where
  "slots_update e slot projectId =
     and_then (checkIfCan e [''stories:w''] projectId) (\<lambda>_.
     and_then (validateSchema e slot) (\<lambda>_.
     try_catch (Slots_update_set e (field slot ''_id'') slot) handleError))"

definition slots_delete :: "env \<Rightarrow> slot \<Rightarrow> string \<Rightarrow> nat meth" where
  "slots_delete e slot projectId =
     and_then (checkIfCan e [''stories:w''] projectId) (\<lambda>_.
     and_then (validateSchema e slot) (\<lambda>_.
     Slots_remove e slot))"

definition slots_getSlots :: "env \<Rightarrow> string \<Rightarrow> slot list meth" where
  "slots_getSlots e projectId = Slots_find_projectId e projectId"

section \<open>The template methods\<close>

text \<open>\<^verbatim>\<open>throw new Meteor.Error(e)\<close>, the handler of most of the methods below.\<close>

definition rethrow_wrapped :: "error \<Rightarrow> 'a meth" where
  "rethrow_wrapped e = throw (Meteor_Error (ErrObj e) None)"

text \<open>The default of the parameter \<^verbatim>\<open>lang = 'en'\<close>: \<open>None\<close> is an argument left out.\<close>

definition lang_or_en :: "string option \<Rightarrow> string" where
  "lang_or_en l = (case l of None \<Rightarrow> ''en'' | Some x \<Rightarrow> x)"



text \<open>
  \<^verbatim>\<open>project.findTemplate\<close>. The query returns the project with the first template of
  that key as its only template; \<^verbatim>\<open>template.templates[0]\<close> is that one.
\<close>

definition newSeq :: "env \<Rightarrow> string \<Rightarrow> string \<Rightarrow> localized" where
  "newSeq e k l = \<lparr>lang = l, sequence = [\<lparr>content = safeDump_text e k\<rparr>]\<rparr>"

definition project_findTemplate :: "env \<Rightarrow> string \<Rightarrow> string \<Rightarrow> string option \<Rightarrow> template meth" where
  "project_findTemplate e projectId k lang_arg =
     and_then (checkIfCan e [''responses:r''] projectId) (\<lambda>_.
       try_catch
         (and_then (Projects_findOne e projectId (Some k) (ElemMatch_key k)) (\<lambda>found.
            (case found of
               None \<Rightarrow>
                 (let t = \<lparr>key = k, tvalues = [newSeq e k (lang_or_en lang_arg)], match_nlu_intents = []\<rparr> in
                  and_then (Projects_update_mods e projectId None
                              [Push_templates [t], Set_responsesUpdatedAt (now e)]) (\<lambda>_.
                  ret t))
             | Some pr \<Rightarrow>
                 (case p_templates pr of
                    None \<Rightarrow> throw TypeError
                  | Some [] \<Rightarrow> throw TypeError
                  | Some (t # ts) \<Rightarrow>
                      if \<not> list_ex (\<lambda>v. lang v = lang_or_en lang_arg) (tvalues t)
                      then and_then (Projects_update_mods e projectId (Some k)
                                       [Push_values_pos (newSeq e k (lang_or_en lang_arg)),
                                        Set_responsesUpdatedAt (now e)]) (\<lambda>_.
                           ret (t\<lparr>tvalues := tvalues t @ [newSeq e k (lang_or_en lang_arg)]\<rparr>))
                      else ret t))))
         rethrow_wrapped)"

text \<open>
  \<^verbatim>\<open>project.insertTemplate\<close>. Destructuring the result of \<^verbatim>\<open>findOne\<close> is outside the
  \<^verbatim>\<open>try\<close>: with no project it is a \<open>TypeError\<close>.
\<close>

definition templates_of :: "projection \<Rightarrow> template list" where
  "templates_of pr = (case p_templates pr of None \<Rightarrow> [] | Some ts \<Rightarrow> ts)"

definition collision_message :: "string \<Rightarrow> string" where
  "collision_message k = ''Can not add template because one already exists with the key '' @ k"

definition project_insertTemplate :: "env \<Rightarrow> string \<Rightarrow> template \<Rightarrow> unit meth" where
  "project_insertTemplate e projectId item =
     and_then (checkIfCan e [''responses:w''] projectId) (\<lambda>_.
     and_then (Projects_findOne e projectId None Fields_templates) (\<lambda>found.
       (case found of
          None \<Rightarrow> throw TypeError
        | Some pr \<Rightarrow>
            if list_ex (\<lambda>t. key t = key item) (templates_of pr)
            then throw (Meteor_Error (ErrStr ''template-collision'') (Some (collision_message (key item))))
            else try_catch
                   (and_then (Projects_update_mods e projectId None
                                [Push_templates [item], Set_responsesUpdatedAt (now e)]) (\<lambda>_.
                    ret ()))
                   rethrow_wrapped)))"

definition templates_download :: "env \<Rightarrow> string \<Rightarrow> template list option meth" where
  "templates_download e projectId =
     and_then (checkIfCan e [''responses:r''] projectId) (\<lambda>_.
     and_then (Projects_findOne e projectId None Fields_templates) (\<lambda>found.
       (case found of
          None \<Rightarrow> throw (Meteor_Error (ErrStr ''404'') (Some ''Project not found''))
        | Some pr \<Rightarrow> ret (p_templates pr))))"

text \<open>
  \<^verbatim>\<open>templates.import\<close>. The payload is what \<^verbatim>\<open>Match.OneOf(String, [Object])\<close> lets
  through. \<^verbatim>\<open>intersectionBy(old, new, 'key')\<close> walks the old templates and keeps
  each whose key it has not kept yet and that some new template has.
\<close>

datatype payload = Serialized string | Structured "template list"

fun intersection_loop :: "string list \<Rightarrow> template list \<Rightarrow> template list \<Rightarrow> template list" where
  "intersection_loop seen [] others = []"
| "intersection_loop seen (t # ts) others =
     (if key t \<notin> set seen \<and> key t \<in> set (map key others)
      then t # intersection_loop (key t # seen) ts others
      else intersection_loop seen ts others)"

definition intersectionBy_key :: "template list \<Rightarrow> template list \<Rightarrow> template list" where
  "intersectionBy_key old new = intersection_loop [] old new"

definition templates_import :: "env \<Rightarrow> string \<Rightarrow> payload \<Rightarrow> unit meth" where
  "templates_import e projectId arg =
     and_then (checkIfCan e [''responses:w''] projectId) (\<lambda>_.
     and_then (case arg of
                 Serialized str \<Rightarrow> (case JSON_parse e str of None \<Rightarrow> throw SyntaxError | Some ts \<Rightarrow> ret ts)
               | Structured ts \<Rightarrow> ret ts) (\<lambda>newTemplates.
     and_then (Projects_findOne e projectId None Fields_templates) (\<lambda>found.
       (case found of
          None \<Rightarrow> throw TypeError
        | Some pr \<Rightarrow>
            (let pullTemplatesKey = map key (intersectionBy_key (templates_of pr) newTemplates) in
             try_catch
               (and_then (Projects_update_mods e projectId None [Pull_templates_keys pullTemplatesKey]) (\<lambda>_.
                and_then (Projects_update_mods e projectId None
                            [Push_templates newTemplates, Set_responsesUpdatedAt (now e)]) (\<lambda>_.
                ret ())))
               rethrow_wrapped)))))"

datatype key_arg = One_key string | Many_keys "string list"

definition templates_removeByKey :: "env \<Rightarrow> string \<Rightarrow> key_arg \<Rightarrow> unit meth" where
  "templates_removeByKey e projectId arg =
     and_then (checkIfCan e [''responses:w''] projectId) (\<lambda>_.
       (let templateKeys = (case arg of One_key k \<Rightarrow> [k] | Many_keys ks \<Rightarrow> ks) in
        try_catch
          (and_then (Projects_update_mods e projectId None
                       [Pull_templates_keys templateKeys, Set_responsesUpdatedAt (now e)]) (\<lambda>_.
           ret ()))
          (\<lambda>err. throw (formatError e err))))"

text \<open>
  \<^verbatim>\<open>templates.countWithIntent\<close>: \<^verbatim>\<open>project[0].templates\<close> of an empty result is a
  \<open>TypeError\<close>; nothing here catches.
\<close>

definition templates_countWithIntent :: "env \<Rightarrow> string \<Rightarrow> string \<Rightarrow> bool meth" where
  "templates_countWithIntent e projectId intent =
     and_then (checkIfCan e [''nlu-data:r'', ''responses:r'', ''conversations:r''] projectId) (\<lambda>_.
     and_then (Projects_find e projectId None (ElemMatch_intent intent)) (\<lambda>project.
       (case project of
          [] \<Rightarrow> throw TypeError
        | pr # rest \<Rightarrow> ret (p_templates pr \<noteq> None))))"

section \<open>The user role schema\<close>

text \<open>
  The class \<^verbatim>\<open>\w\<close> and an unanchored match of \<^verbatim>\<open>/\w+:\w+/\<close>: from some position on,
  one or more word characters, a colon, one or more word characters.
\<close>

definition word_char :: "char \<Rightarrow> bool" where
  "word_char c =
     ((CHR ''a'' \<le> c \<and> c \<le> CHR ''z'') \<or> (CHR ''A'' \<le> c \<and> c \<le> CHR ''Z'') \<or>
      (CHR ''0'' \<le> c \<and> c \<le> CHR ''9'') \<or> c = CHR ''_'')"

text \<open>\<^verbatim>\<open>\w+\<close> at the head of a string: what is left after each way of matching it.\<close>

fun word_plus :: "string \<Rightarrow> string list" where
  "word_plus [] = []"
| "word_plus (c # cs) = (if word_char c then cs # word_plus cs else [])"

definition match_here :: "string \<Rightarrow> bool" where
  "match_here s =
     list_ex (\<lambda>r. case r of [] \<Rightarrow> False | d # r' \<Rightarrow> d = CHR '':'' \<and> word_plus r' \<noteq> []) (word_plus s)"

fun regex_match :: "string \<Rightarrow> bool" where
  "regex_match [] = False"
| "regex_match (c # cs) = (match_here (c # cs) \<or> regex_match cs)"

record role =
  role_id :: string

definition roles_allowedValues :: "role list \<Rightarrow> string list" where
  "roles_allowedValues roles = filter (\<lambda>name. \<not> regex_match name) (map role_id roles)"

definition project_allowedValues :: "project list \<Rightarrow> string list" where
  "project_allowedValues ps = map project_id ps @ [''GLOBAL'']"

text \<open>
  The spec's words for the pattern (a \<^verbatim>\<open>scope:action\<close> shape): a substring made of word
  characters, a colon and word characters.
\<close>

definition scope_action_shaped :: "string \<Rightarrow> bool" where
  "scope_action_shaped name =
     (\<exists>pre u v post. name = pre @ u @ [CHR '':''] @ v @ post \<and> u \<noteq> [] \<and> v \<noteq> [] \<and>
        list_all word_char u \<and> list_all word_char v)"

section \<open>Example data\<close>

text \<open>
  A caller who holds every permission, one slot schema (\<^verbatim>\<open>text\<close>, accepting every slot),
  a store that works, and the same with a store that has lost its connection.
\<close>

definition example_env :: env where
  "example_env =
     \<lparr>can = (\<lambda>scopes pid. True),
      slotSchemas = (\<lambda>t. if t = JStr ''text'' then Some (\<lambda>slot. True) else None),
      formatNewlines = (\<lambda>frags. frags),
      formatError = (\<lambda>err. err),
      safeDump_text = (\<lambda>k. ''text: '' @ k),
      JSON_parse = (\<lambda>str. None),
      now = 1000,
      gen_id = (\<lambda>n. ''generated''),
      store_fault = (\<lambda>n. None)\<rparr>"

definition failing_env :: env where
  "failing_env = example_env\<lparr>store_fault := (\<lambda>n. Some (StoreErr None ''connection lost''))\<rparr>"

definition stored_slot :: slot where
  "stored_slot =
     [(''_id'', JStr ''s1''), (''type'', JStr ''text''), (''name'', JStr ''city''),
      (''initialValue'', JStr ''Paris'')]"

definition sent_slot :: slot where
  "sent_slot = [(''_id'', JStr ''s1''), (''type'', JStr ''text''), (''name'', JStr ''town'')]"

definition untyped_slot :: slot where
  "untyped_slot = [(''_id'', JStr ''s1''), (''name'', JStr ''city'')]"

definition greet_en :: localized where
  "greet_en = \<lparr>lang = ''en'', sequence = [\<lparr>content = ''text: hello''\<rparr>]\<rparr>"

definition utter_greet :: template where
  "utter_greet = \<lparr>key = ''utter_greet'', tvalues = [greet_en], match_nlu_intents = []\<rparr>"

definition utter_bye :: template where
  "utter_bye = \<lparr>key = ''utter_bye'', tvalues = [], match_nlu_intents = []\<rparr>"

definition utter_greet_new :: template where
  "utter_greet_new = \<lparr>key = ''utter_greet'', tvalues = [], match_nlu_intents = [''greet'']\<rparr>"

definition example_project :: project where
  "example_project = \<lparr>project_id = ''P'', templates = [utter_greet], responsesUpdatedAt = None\<rparr>"

definition example_db :: db where
  "example_db = \<lparr>Slots = [stored_slot], Projects = [example_project], oplog = []\<rparr>"

definition updated_slot :: slot where
  "updated_slot =
     [(''_id'', JStr ''s1''), (''type'', JStr ''text''), (''name'', JStr ''town''),
      (''initialValue'', JStr ''Paris'')]"

definition greet_fr :: localized where
  "greet_fr = \<lparr>lang = ''fr'', sequence = [\<lparr>content = ''text: utter_greet''\<rparr>]\<rparr>"

definition utter_greet_fr :: template where
  "utter_greet_fr = \<lparr>key = ''utter_greet'', tvalues = [greet_en, greet_fr], match_nlu_intents = []\<rparr>"

definition later_env :: env where
  "later_env = example_env\<lparr>now := 2000\<rparr>"

definition example_db_fr :: db where
  "example_db_fr =
     \<lparr>Slots = [stored_slot],
      Projects = [\<lparr>project_id = ''P'', templates = [utter_greet_fr], responsesUpdatedAt = Some 1000\<rparr>],
      oplog = [Op_find, Op_update]\<rparr>"

definition example_project2 :: project where
  "example_project2 = \<lparr>project_id = ''P'', templates = [utter_greet, utter_bye], responsesUpdatedAt = None\<rparr>"

definition example_db2 :: db where
  "example_db2 = \<lparr>Slots = [], Projects = [example_project2], oplog = []\<rparr>"

definition parsing_env :: env where
  "parsing_env =
     example_env\<lparr>JSON_parse := (\<lambda>str. if str = ''[utter_greet_new]'' then Some [utter_greet_new] else None)\<rparr>"


section \<open>The timestamp of a project's responses\<close>




section \<open>Sequencing and store calls\<close>

lemma and_then_ret: "and_then (ret x) f = f x"
  by (rule ext) (simp add: and_then_def ret_def)

lemma and_then_throw: "and_then (throw err) f = throw err"
  by (rule ext) (simp add: and_then_def throw_def)

lemma and_then_Inl: "m s = (Inl err, s') \<Longrightarrow> and_then m f s = (Inl err, s')"
  by (simp add: and_then_def)

lemma and_then_Inr: "m s = (Inr x, s') \<Longrightarrow> and_then m f s = f x s'"
  by (simp add: and_then_def)

lemma try_catch_Inl: "m s = (Inl err, s') \<Longrightarrow> try_catch m h s = h err s'"
  by (simp add: try_catch_def)

lemma try_catch_Inr: "m s = (Inr x, s') \<Longrightarrow> try_catch m h s = (Inr x, s')"
  by (simp add: try_catch_def)

lemma store_call_ok:
  "store_fault e (length (oplog s)) = None \<Longrightarrow>
   store_call e c s = (Inr (), s\<lparr>oplog := oplog s @ [c]\<rparr>)"
  by (simp add: store_call_def)

lemma store_call_fault:
  "store_fault e (length (oplog s)) = Some err \<Longrightarrow>
   store_call e c s = (Inl (StoreFailure err), s\<lparr>oplog := oplog s @ [c]\<rparr>)"
  by (simp add: store_call_def)

lemma checkIfCan_ok: "can e scopes pid \<Longrightarrow> checkIfCan e scopes pid = ret ()"
  by (simp add: checkIfCan_def)

lemma checkIfCan_denied: "\<not> can e scopes pid \<Longrightarrow> checkIfCan e scopes pid = throw Forbidden"
  by (simp add: checkIfCan_def)

lemma validateSchema_no_type:
  "map_of slot ''type'' = None \<Longrightarrow>
   validateSchema e slot = throw (Meteor_Error (ErrStr ''400'') None)"
  by (simp add: validateSchema_def field_def)

lemma validateSchema_ok:
  "truthy (field slot ''type'') \<Longrightarrow> slotSchemas e (field slot ''type'') = Some accepts \<Longrightarrow>
   accepts slot \<Longrightarrow> validateSchema e slot = ret ()"
  by (simp add: validateSchema_def)

lemma failing_env_fault: "store_fault failing_env n = Some (StoreErr None ''connection lost'')"
  by (simp add: failing_env_def)

lemma Slots_remove_fault:
  "store_fault e (length (oplog s)) = Some err \<Longrightarrow>
   Slots_remove e sel s = (Inl (StoreFailure err), s\<lparr>oplog := oplog s @ [Op_remove]\<rparr>)"
  by (simp add: Slots_remove_def and_then_Inl store_call_fault)

lemma Slots_insert_fault:
  "store_fault e (length (oplog s)) = Some err \<Longrightarrow>
   Slots_insert e sel s = (Inl (StoreFailure err), s\<lparr>oplog := oplog s @ [Op_insert]\<rparr>)"
  by (simp add: Slots_insert_def and_then_Inl store_call_fault)

lemma Slots_update_set_fault:
  "store_fault e (length (oplog s)) = Some err \<Longrightarrow>
   Slots_update_set e i sel s = (Inl (StoreFailure err), s\<lparr>oplog := oplog s @ [Op_update]\<rparr>)"
  by (simp add: Slots_update_set_def and_then_Inl store_call_fault)

lemma example_duplicate_insert:
  "Slots_insert example_env stored_slot example_db =
     (Inl (StoreFailure (StoreErr (Some 11000) ''E11000 duplicate key error'')),
      example_db\<lparr>oplog := [Op_insert]\<rparr>)"
  by (simp add: Slots_insert_def and_then_def store_call_def example_env_def example_db_def
      stored_slot_def field_def)

section \<open>The slot methods: what they throw\<close>

text \<open>
  C1. When the store call under it fails, \<^verbatim>\<open>slots.insert\<close> and \<^verbatim>\<open>slots.update\<close> throw the
  400 error "Slot already exists" for a duplicate key (code 11000) and the 500 error
  "Server Error" for any other failure. \<^verbatim>\<open>slots.delete\<close> has no \<^verbatim>\<open>try\<close> around
  \<^verbatim>\<open>Slots.remove\<close>: whatever the store throws leaves the method as it is, classified as
  neither. The slot is one that passes the schema validation and the caller holds
  \<^verbatim>\<open>stories:w\<close>, so that the store call is reached.
\<close>

theorem slots_store_failure:
  assumes "can e [''stories:w''] projectId"
    and "truthy (field slot ''type'')"
    and "slotSchemas e (field slot ''type'') = Some accepts"
    and "accepts slot"
  shows "(\<forall>x s'. Slots_insert e slot s = (Inl x, s') \<longrightarrow>
            slots_insert e slot projectId s =
              (Inl (if error_code x = Some 11000
                    then Meteor_Error (ErrNum 400) (Some ''Slot already exists'')
                    else Meteor_Error (ErrNum 500) (Some ''Server Error'')), s'))
       \<and> (\<forall>x s'. Slots_update_set e (field slot ''_id'') slot s = (Inl x, s') \<longrightarrow>
            slots_update e slot projectId s =
              (Inl (if error_code x = Some 11000
                    then Meteor_Error (ErrNum 400) (Some ''Slot already exists'')
                    else Meteor_Error (ErrNum 500) (Some ''Server Error'')), s'))
       \<and> (\<forall>x s'. Slots_remove e slot s = (Inl x, s') \<longrightarrow>
            slots_delete e slot projectId s = (Inl x, s'))"
  using assms
  by (simp add: slots_insert_def slots_update_def slots_delete_def checkIfCan_ok
      validateSchema_ok and_then_ret try_catch_Inl handleError_def throw_def)

theorem slots_store_failure_witness:
  "slots_insert example_env stored_slot ''P'' example_db
     = (Inl (Meteor_Error (ErrNum 400) (Some ''Slot already exists'')), example_db\<lparr>oplog := [Op_insert]\<rparr>)
   \<and> slots_insert failing_env stored_slot ''P'' example_db
     = (Inl (Meteor_Error (ErrNum 500) (Some ''Server Error'')), example_db\<lparr>oplog := [Op_insert]\<rparr>)
   \<and> slots_update failing_env stored_slot ''P'' example_db
     = (Inl (Meteor_Error (ErrNum 500) (Some ''Server Error'')), example_db\<lparr>oplog := [Op_update]\<rparr>)
   \<and> slots_delete failing_env stored_slot ''P'' example_db
     = (Inl (StoreFailure (StoreErr None ''connection lost'')), example_db\<lparr>oplog := [Op_remove]\<rparr>)"
proof -
  have c: "can failing_env [''stories:w''] ''P''"
    by (simp add: failing_env_def example_env_def)
  have t: "truthy (field stored_slot ''type'')"
    by (simp add: stored_slot_def field_def)
  have v: "slotSchemas failing_env (field stored_slot ''type'') = Some (\<lambda>slot. True)"
    by (simp add: failing_env_def example_env_def stored_slot_def field_def)
  have l: "oplog example_db = []"
    by (simp add: example_db_def)
  have f: "store_fault failing_env (length (oplog example_db)) = Some (StoreErr None ''connection lost'')"
    by (rule failing_env_fault)
  have c': "can example_env [''stories:w''] ''P''"
    by (simp add: example_env_def)
  have v': "slotSchemas example_env (field stored_slot ''type'') = Some (\<lambda>slot. True)"
    by (simp add: example_env_def stored_slot_def field_def)
  show ?thesis
    using slots_store_failure [where s = example_db, OF c t v]
      slots_store_failure [where s = example_db, OF c' t v'] example_duplicate_insert
      Slots_insert_fault [OF f, of stored_slot]
      Slots_update_set_fault [OF f, of "field stored_slot ''_id''" stored_slot]
      Slots_remove_fault [OF f, of stored_slot] l
    by simp
qed

text \<open>
  C4. A slot without a \<^verbatim>\<open>type\<close> field: each of \<^verbatim>\<open>slots.insert\<close>, \<^verbatim>\<open>slots.update\<close> and
  \<^verbatim>\<open>slots.delete\<close> throws \<^verbatim>\<open>new Meteor.Error('400')\<close>, for a caller who holds
  \<^verbatim>\<open>stories:w\<close> on the project (the check that stands before the validation), and
  leaves the database as it was, the log of store calls included: no insert, update or
  remove is attempted, whoever calls.
\<close>

theorem slots_without_type_rejected:
  assumes "map_of slot ''type'' = None"
  shows "(can e [''stories:w''] projectId \<longrightarrow>
            fst (slots_insert e slot projectId s) = Inl (Meteor_Error (ErrStr ''400'') None)
          \<and> fst (slots_update e slot projectId s) = Inl (Meteor_Error (ErrStr ''400'') None)
          \<and> fst (slots_delete e slot projectId s) = Inl (Meteor_Error (ErrStr ''400'') None))
       \<and> snd (slots_insert e slot projectId s) = s
       \<and> snd (slots_update e slot projectId s) = s
       \<and> snd (slots_delete e slot projectId s) = s"
  using assms
  by (cases "can e [''stories:w''] projectId")
     (simp_all add: slots_insert_def slots_update_def slots_delete_def checkIfCan_ok
        checkIfCan_denied validateSchema_no_type and_then_ret and_then_throw throw_def)

theorem slots_without_type_rejected_witness:
  "map_of untyped_slot ''type'' = None \<and> can example_env [''stories:w''] ''P''
   \<and> slots_insert example_env untyped_slot ''P'' example_db
       = (Inl (Meteor_Error (ErrStr ''400'') None), example_db)
   \<and> slots_update example_env untyped_slot ''P'' example_db
       = (Inl (Meteor_Error (ErrStr ''400'') None), example_db)
   \<and> slots_delete example_env untyped_slot ''P'' example_db
       = (Inl (Meteor_Error (ErrStr ''400'') None), example_db)"
proof -
  have t: "map_of untyped_slot ''type'' = None"
    by (simp add: untyped_slot_def)
  have c: "can example_env [''stories:w''] ''P''"
    by (simp add: example_env_def)
  show ?thesis
    using t c slots_without_type_rejected [OF t, of example_env "''P''" example_db]
    by (simp add: prod_eq_iff)
qed

section \<open>Updating a slot\<close>

lemma update_first_where_split:
  "list_all (\<lambda>x. \<not> P x) pre \<Longrightarrow> P x \<Longrightarrow>
   update_first_where P f (pre @ x # post) = pre @ f x # post"
  by (induction pre) auto

lemma Slots_update_set_ok:
  "store_fault e (length (oplog s)) = None \<Longrightarrow> truthy i \<Longrightarrow>
   list_ex (\<lambda>d. field d ''_id'' = i) (Slots s) \<Longrightarrow>
   Slots_update_set e i fs s =
     (Inr 1, s\<lparr>Slots := update_first_where (\<lambda>d. field d ''_id'' = i) (\<lambda>d. AList.merge d fs) (Slots s),
               oplog := oplog s @ [Op_update]\<rparr>)"
  by (simp add: Slots_update_set_def and_then_Inr store_call_ok)

lemma field_merge:
  "field (AList.merge old fs) k = (case map_of fs k of None \<Rightarrow> field old k | Some v \<Rightarrow> v)"
  by (simp add: field_def merge_conv' map_add_def split: option.splits)

text \<open>
  C2 (as amended). \<^verbatim>\<open>slots.update(s, projectId)\<close> with a slot that passes validation sets
  each field of \<open>s\<close> in the stored slot whose \<^verbatim>\<open>_id\<close> equals \<^verbatim>\<open>s._id\<close> and leaves every
  other field of the stored slot as it was: \<^verbatim>\<open>$set\<close> merges, it does not replace. The other
  documents are untouched and the result is 1.
\<close>

theorem slots_update_sets_fields:
  assumes "can e [''stories:w''] projectId"
    and "truthy (field slot ''type'')"
    and "slotSchemas e (field slot ''type'') = Some accepts"
    and "accepts slot"
    and "store_fault e (length (oplog s)) = None"
    and "truthy (field slot ''_id'')"
    and "Slots s = pre @ old # post"
    and "list_all (\<lambda>d. field d ''_id'' \<noteq> field slot ''_id'') pre"
    and "field old ''_id'' = field slot ''_id''"
  shows "slots_update e slot projectId s =
           (Inr 1, s\<lparr>Slots := pre @ AList.merge old slot # post, oplog := oplog s @ [Op_update]\<rparr>)
       \<and> (\<forall>k. field (AList.merge old slot) k =
                (case map_of slot k of None \<Rightarrow> field old k | Some v \<Rightarrow> v))"
proof -
  have ex: "list_ex (\<lambda>d. field d ''_id'' = field slot ''_id'') (Slots s)"
    using assms(7,9) by (simp add: list_ex_iff)
  have upd: "update_first_where (\<lambda>d. field d ''_id'' = field slot ''_id'')
               (\<lambda>d. AList.merge d slot) (Slots s) = pre @ AList.merge old slot # post"
    using assms(7,8,9) by (simp add: update_first_where_split)
  have "Slots_update_set e (field slot ''_id'') slot s =
          (Inr 1, s\<lparr>Slots := pre @ AList.merge old slot # post, oplog := oplog s @ [Op_update]\<rparr>)"
    using Slots_update_set_ok [OF assms(5,6) ex, of slot] upd by simp
  then have "slots_update e slot projectId s =
          (Inr 1, s\<lparr>Slots := pre @ AList.merge old slot # post, oplog := oplog s @ [Op_update]\<rparr>)"
    using assms(1-4)
    by (simp add: slots_update_def checkIfCan_ok validateSchema_ok and_then_ret try_catch_Inr)
  then show ?thesis
    by (simp add: field_merge)
qed

theorem slots_update_sets_fields_witness:
  "slots_update example_env sent_slot ''P'' example_db =
     (Inr 1, example_db\<lparr>Slots := [] @ AList.merge stored_slot sent_slot # [], oplog := oplog example_db @ [Op_update]\<rparr>)
   \<and> (\<forall>k. field (AList.merge stored_slot sent_slot) k =
            (case map_of sent_slot k of None \<Rightarrow> field stored_slot k | Some v \<Rightarrow> v))"
proof -
  have c: "can example_env [''stories:w''] ''P''"
    by (simp add: example_env_def)
  have t: "truthy (field sent_slot ''type'')"
    by (simp add: sent_slot_def field_def)
  have v: "slotSchemas example_env (field sent_slot ''type'') = Some (\<lambda>slot. True)"
    by (simp add: example_env_def sent_slot_def field_def)
  have f: "store_fault example_env (length (oplog example_db)) = None"
    by (simp add: example_env_def)
  have i: "truthy (field sent_slot ''_id'')"
    by (simp add: sent_slot_def field_def)
  have d: "Slots example_db = [] @ stored_slot # []"
    by (simp add: example_db_def)
  have p: "list_all (\<lambda>d. field d ''_id'' \<noteq> field sent_slot ''_id'') []"
    by simp
  have o: "field stored_slot ''_id'' = field sent_slot ''_id''"
    by (simp add: stored_slot_def sent_slot_def field_def)
  show ?thesis
    using slots_update_sets_fields [OF c t v _ f i d p o] by simp
qed

text \<open>
  C2 as the spec states it (the stored fields become exactly those of \<open>s\<close>) fails: the
  stored slot has \<^verbatim>\<open>initialValue\<close>, the slot sent does not, and after the update the
  stored slot still has it.
\<close>

theorem slots_update_keeps_absent_fields_counterexample:
  "slots_update example_env sent_slot ''P'' example_db =
     (Inr 1, example_db\<lparr>Slots := [updated_slot], oplog := [Op_update]\<rparr>)
   \<and> map_of updated_slot ''initialValue'' = Some (JStr ''Paris'')
   \<and> map_of sent_slot ''initialValue'' = None"
  by (simp add: slots_update_def checkIfCan_def validateSchema_def and_then_ret try_catch_Inr
      Slots_update_set_def and_then_Inr store_call_ok
      example_env_def example_db_def sent_slot_def stored_slot_def updated_slot_def field_def)

section \<open>The template methods on a project that does not exist\<close>

lemma Projects_findOne_ok:
  "store_fault e (length (oplog s)) = None \<Longrightarrow>
   Projects_findOne e pid tkey fo s =
     (Inr (map_option (project_fields fo) (find (selects pid tkey) (Projects s))),
      s\<lparr>oplog := oplog s @ [Op_find]\<rparr>)"
  by (simp add: Projects_findOne_def and_then_Inr store_call_ok)

lemma Projects_find_ok:
  "store_fault e (length (oplog s)) = None \<Longrightarrow>
   Projects_find e pid tkey fo s =
     (Inr (map (project_fields fo) (filter (selects pid tkey) (Projects s))),
      s\<lparr>oplog := oplog s @ [Op_find]\<rparr>)"
  by (simp add: Projects_find_def and_then_Inr store_call_ok)

lemma Projects_update_mods_ok:
  "store_fault e (length (oplog s)) = None \<Longrightarrow>
   Projects_update_mods e pid tkey mods s =
     (if list_ex (selects pid tkey) (Projects s)
      then (Inr 1, s\<lparr>Projects := update_first_where (selects pid tkey)
                                    (apply_modifiers tkey mods) (Projects s),
                     oplog := oplog s @ [Op_update]\<rparr>)
      else (Inr 0, s\<lparr>oplog := oplog s @ [Op_update]\<rparr>))"
  by (simp add: Projects_update_mods_def and_then_Inr store_call_ok)

lemma no_project_find:
  "projectId \<notin> project_id ` set ps \<Longrightarrow> find (selects projectId tkey) ps = None"
  by (auto simp: find_None_iff selects_def)

lemma no_project_filter:
  "projectId \<notin> project_id ` set ps \<Longrightarrow> filter (selects projectId tkey) ps = []"
  by (auto simp: filter_empty_conv selects_def)

lemma no_project_list_ex:
  "projectId \<notin> project_id ` set ps \<Longrightarrow> \<not> list_ex (selects projectId tkey) ps"
  by (auto simp: list_ex_iff selects_def)

text \<open>
  C3. With a project identifier that no project has, and a caller who passes the
  permission checks: \<^verbatim>\<open>project.insertTemplate\<close>, \<^verbatim>\<open>templates.import\<close> and
  \<^verbatim>\<open>templates.countWithIntent\<close> end in a \<open>TypeError\<close> (they read a property of the
  missing query result, outside any \<^verbatim>\<open>try\<close>); \<^verbatim>\<open>templates.removeByKey\<close> returns
  normally having changed nothing, and \<^verbatim>\<open>project.findTemplate\<close> returns a template
  that it stored nowhere. None of these is a failure with a code and a message.
\<close>

theorem missing_project_faults:
  assumes "projectId \<notin> project_id ` set (Projects s)"
    and "can e [''responses:w''] projectId"
    and "can e [''responses:r''] projectId"
    and "can e [''nlu-data:r'', ''responses:r'', ''conversations:r''] projectId"
    and "store_fault e (length (oplog s)) = None"
    and "store_fault e (Suc (length (oplog s))) = None"
  shows "project_insertTemplate e projectId item s = (Inl TypeError, s\<lparr>oplog := oplog s @ [Op_find]\<rparr>)
       \<and> templates_import e projectId (Structured ts) s = (Inl TypeError, s\<lparr>oplog := oplog s @ [Op_find]\<rparr>)
       \<and> templates_countWithIntent e projectId intent s = (Inl TypeError, s\<lparr>oplog := oplog s @ [Op_find]\<rparr>)
       \<and> templates_removeByKey e projectId arg s = (Inr (), s\<lparr>oplog := oplog s @ [Op_update]\<rparr>)
       \<and> project_findTemplate e projectId k l s =
           (Inr \<lparr>key = k, tvalues = [newSeq e k (lang_or_en l)], match_nlu_intents = []\<rparr>,
            s\<lparr>oplog := oplog s @ [Op_find, Op_update]\<rparr>)"
proof -
  have a: "project_insertTemplate e projectId item s = (Inl TypeError, s\<lparr>oplog := oplog s @ [Op_find]\<rparr>)"
    using assms(1,2,5)
    by (simp add: project_insertTemplate_def checkIfCan_ok and_then_ret and_then_Inr
        Projects_findOne_ok no_project_find throw_def)
  have b: "templates_import e projectId (Structured ts) s = (Inl TypeError, s\<lparr>oplog := oplog s @ [Op_find]\<rparr>)"
    using assms(1,2,5)
    by (simp add: templates_import_def checkIfCan_ok and_then_ret and_then_Inr
        Projects_findOne_ok no_project_find throw_def)
  have c: "templates_countWithIntent e projectId intent s = (Inl TypeError, s\<lparr>oplog := oplog s @ [Op_find]\<rparr>)"
    using assms(1,4,5)
    by (simp add: templates_countWithIntent_def checkIfCan_ok and_then_ret and_then_Inr
        Projects_find_ok no_project_filter throw_def)
  have d: "templates_removeByKey e projectId arg s = (Inr (), s\<lparr>oplog := oplog s @ [Op_update]\<rparr>)"
    using assms(1,2,5)
    by (simp add: templates_removeByKey_def checkIfCan_ok and_then_ret and_then_def try_catch_def Let_def
        Projects_update_mods_ok no_project_list_ex ret_def)
  have f: "project_findTemplate e projectId k l s =
           (Inr \<lparr>key = k, tvalues = [newSeq e k (lang_or_en l)], match_nlu_intents = []\<rparr>,
            s\<lparr>oplog := oplog s @ [Op_find, Op_update]\<rparr>)"
    using assms(1,3,5,6)
    by (simp add: project_findTemplate_def checkIfCan_ok and_then_ret and_then_def try_catch_def Let_def
        Projects_findOne_ok Projects_update_mods_ok no_project_find no_project_list_ex ret_def)
  from a b c d f show ?thesis by simp
qed

theorem missing_project_faults_witness:
  "project_insertTemplate example_env ''nope'' utter_bye example_db
       = (Inl TypeError, example_db\<lparr>oplog := [Op_find]\<rparr>)
   \<and> templates_import example_env ''nope'' (Structured [utter_bye]) example_db
       = (Inl TypeError, example_db\<lparr>oplog := [Op_find]\<rparr>)
   \<and> templates_countWithIntent example_env ''nope'' ''greet'' example_db
       = (Inl TypeError, example_db\<lparr>oplog := [Op_find]\<rparr>)
   \<and> templates_removeByKey example_env ''nope'' (One_key ''utter_greet'') example_db
       = (Inr (), example_db\<lparr>oplog := [Op_update]\<rparr>)
   \<and> project_findTemplate example_env ''nope'' ''utter_greet'' None example_db
       = (Inr \<lparr>key = ''utter_greet'',
               tvalues = [\<lparr>lang = ''en'', sequence = [\<lparr>content = ''text: utter_greet''\<rparr>]\<rparr>],
               match_nlu_intents = []\<rparr>,
          example_db\<lparr>oplog := [Op_find, Op_update]\<rparr>)"
proof -
  have n: "''nope'' \<notin> project_id ` set (Projects example_db)"
    by (simp add: example_db_def example_project_def)
  have c: "can example_env scopes ''nope''" for scopes
    by (simp add: example_env_def)
  have f: "store_fault example_env n = None" for n
    by (simp add: example_env_def)
  have l: "oplog example_db = []"
    by (simp add: example_db_def)
  have q: "newSeq example_env ''utter_greet'' (lang_or_en None)
           = \<lparr>lang = ''en'', sequence = [\<lparr>content = ''text: utter_greet''\<rparr>]\<rparr>"
    by (simp add: newSeq_def lang_or_en_def example_env_def)
  show ?thesis
    using missing_project_faults [OF n c c c f f, of utter_bye "[utter_bye]" "''greet''"
        "One_key ''utter_greet''" "''utter_greet''" None] l q
    by simp
qed

section \<open>Finding a template\<close>

lemma find_update_first_where:
  "(\<And>x. Q x \<Longrightarrow> P x) \<Longrightarrow> find P xs = Some p \<Longrightarrow> Q (f p) \<Longrightarrow>
   find Q (update_first_where P f xs) = Some (f p)"
  by (induction xs) (auto split: if_splits)

lemma update_first_where_const:
  "find P xs = Some p \<Longrightarrow> update_first_where P f xs = update_first_where P (\<lambda>x. f p) xs"
  by (induction xs) (auto split: if_splits)

lemma find_Some_holds: "find P xs = Some x \<Longrightarrow> P x"
  by (auto simp: find_Some_iff)

lemma find_Some_list_ex: "find P xs = Some x \<Longrightarrow> list_ex P xs"
  by (auto simp: find_Some_iff list_ex_iff)

lemma example_env_can: "can example_env scopes pid"
  by (simp add: example_env_def)

lemma example_env_no_fault: "store_fault example_env n = None"
  by (simp add: example_env_def)

lemma example_find_P:
  "find (selects ''P'' (Some ''utter_greet'')) (Projects example_db) = Some example_project"
  by (simp add: example_db_def example_project_def selects_def utter_greet_def)

lemma example_find_greet:
  "find (\<lambda>t. key t = ''utter_greet'') (templates example_project) = Some utter_greet"
  by (simp add: example_project_def utter_greet_def)

text \<open>
  C6. The project has a template with the key, and that template has no value for the
  language asked for. Then \<^verbatim>\<open>project.findTemplate\<close> appends one value for the language,
  its content \<^verbatim>\<open>safeDump({ text: key })\<close>, after the values the template had, which stay as
  they were; afterwards exactly one value of the template has that language. It returns
  the template with the old and the new value, the template now stored under the key, and
  it sets \<^verbatim>\<open>responsesUpdatedAt\<close>. The caller holds \<^verbatim>\<open>responses:r\<close> and the store does not
  fail.
\<close>

theorem findTemplate_adds_language:
  assumes "can e [''responses:r''] projectId"
    and "store_fault e (length (oplog s)) = None"
    and "store_fault e (Suc (length (oplog s))) = None"
    and "find (selects projectId (Some k)) (Projects s) = Some p"
    and "find (\<lambda>t. key t = k) (templates p) = Some t"
    and "\<not> list_ex (\<lambda>v. lang v = lang_or_en l) (tvalues t)"
  shows
    "(let v = \<lparr>lang = lang_or_en l, sequence = [\<lparr>content = safeDump_text e k\<rparr>]\<rparr>;
          t' = t\<lparr>tvalues := tvalues t @ [v]\<rparr>;
          p' = p\<lparr>templates := update_first_where (\<lambda>t. key t = k) (\<lambda>t. t') (templates p),
                 responsesUpdatedAt := Some (now e)\<rparr>;
          s' = s\<lparr>Projects := update_first_where (selects projectId (Some k)) (\<lambda>p. p') (Projects s),
                 oplog := oplog s @ [Op_find, Op_update]\<rparr>
      in project_findTemplate e projectId k l s = (Inr t', s')
         \<and> filter (\<lambda>v. lang v = lang_or_en l) (tvalues t') = [v]
         \<and> take (length (tvalues t)) (tvalues t') = tvalues t
         \<and> find (selects projectId (Some k)) (Projects s') = Some p'
         \<and> find (\<lambda>t. key t = k) (templates p') = Some t')"
proof -
  define v where "v = \<lparr>lang = lang_or_en l, sequence = [\<lparr>content = safeDump_text e k\<rparr>]\<rparr>"
  define t' where "t' = t\<lparr>tvalues := tvalues t @ [v]\<rparr>"
  define p' where "p' = p\<lparr>templates := update_first_where (\<lambda>t. key t = k) (\<lambda>t. t') (templates p),
                 responsesUpdatedAt := Some (now e)\<rparr>"
  define s' where "s' = s\<lparr>Projects := update_first_where (selects projectId (Some k)) (\<lambda>p. p') (Projects s),
                 oplog := oplog s @ [Op_find, Op_update]\<rparr>"
  have kt: "key t = k"
    using assms(5) by (rule find_Some_holds)
  have kt': "key t' = k"
    using kt by (simp add: t'_def)
  have sel: "selects projectId (Some k) p"
    using assms(4) by (rule find_Some_holds)
  have ex: "list_ex (selects projectId (Some k)) (Projects s)"
    using assms(4) by (rule find_Some_list_ex)
  have nv: "newSeq e k (lang_or_en l) = v"
    by (simp add: newSeq_def v_def)
  have tp: "update_first_where (\<lambda>t. key t = k) (\<lambda>t. t\<lparr>tvalues := tvalues t @ [v]\<rparr>) (templates p)
            = update_first_where (\<lambda>t. key t = k) (\<lambda>t. t') (templates p)"
    using update_first_where_const [OF assms(5), of "\<lambda>t. t\<lparr>tvalues := tvalues t @ [v]\<rparr>"]
    by (simp add: t'_def)
  have fp: "apply_modifiers (Some k) [Push_values_pos v, Set_responsesUpdatedAt (now e)] p = p'"
    by (simp add: apply_modifiers_def p'_def tp)
  have up: "update_first_where (selects projectId (Some k))
              (apply_modifiers (Some k) [Push_values_pos v, Set_responsesUpdatedAt (now e)])
              (Projects s)
            = update_first_where (selects projectId (Some k)) (\<lambda>q. p') (Projects s)"
    using update_first_where_const [OF assms(4),
        of "apply_modifiers (Some k) [Push_values_pos v, Set_responsesUpdatedAt (now e)]"] fp
    by simp
  have found: "find (\<lambda>t. key t = k) (templates p') = Some t'"
    using find_update_first_where [of "\<lambda>t. key t = k" "\<lambda>t. key t = k" "templates p" t "\<lambda>t. t'"]
      assms(5) kt' by (simp add: p'_def)
  have sel': "selects projectId (Some k) p'"
    using sel find_Some_list_ex [OF found] by (simp add: selects_def p'_def)
  have found_p: "find (selects projectId (Some k)) (Projects s') = Some p'"
    using find_update_first_where [of "selects projectId (Some k)" "selects projectId (Some k)"
        "Projects s" p "\<lambda>q. p'"] assms(4) sel'
    by (simp add: s'_def)
  have run: "project_findTemplate e projectId k l s = (Inr t', s')"
    using assms(1,2,3,4,5,6) ex
    by (simp add: project_findTemplate_def checkIfCan_ok and_then_ret and_then_def try_catch_def
        Projects_findOne_ok Projects_update_mods_ok ret_def nv up s'_def t'_def)
  have one: "filter (\<lambda>v. lang v = lang_or_en l) (tvalues t') = [v]"
    using assms(6) by (simp add: t'_def v_def list_ex_iff filter_empty_conv)
  have old: "take (length (tvalues t)) (tvalues t') = tvalues t"
    by (simp add: t'_def)
  show ?thesis
    using run one old found_p found
    unfolding Let_def v_def [symmetric] t'_def [symmetric] p'_def [symmetric] s'_def [symmetric]
    by simp
qed

theorem findTemplate_adds_language_witness:
  "project_findTemplate example_env ''P'' ''utter_greet'' (Some ''fr'') example_db =
     (Inr utter_greet_fr,
      example_db\<lparr>Projects := [example_project\<lparr>templates := [utter_greet_fr],
                                                responsesUpdatedAt := Some 1000\<rparr>],
                 oplog := [Op_find, Op_update]\<rparr>)
   \<and> filter (\<lambda>v. lang v = ''fr'') (tvalues utter_greet_fr) = [greet_fr]"
proof -
  have n: "\<not> list_ex (\<lambda>v. lang v = lang_or_en (Some ''fr'')) (tvalues utter_greet)"
    by (simp add: utter_greet_def greet_en_def lang_or_en_def)
  show ?thesis
    using findTemplate_adds_language [OF example_env_can example_env_no_fault example_env_no_fault
        example_find_P example_find_greet n]
    by (simp add: Let_def lang_or_en_def example_db_def example_project_def utter_greet_def
        utter_greet_fr_def greet_fr_def greet_en_def example_env_def selects_def)
qed

lemma Projects_findOne_fault:
  "store_fault e (length (oplog s)) = Some err \<Longrightarrow>
   Projects_findOne e pid tkey fo s = (Inl (StoreFailure err), s\<lparr>oplog := oplog s @ [Op_find]\<rparr>)"
  by (simp add: Projects_findOne_def and_then_Inl store_call_fault)

lemma Projects_update_mods_fault:
  "store_fault e (length (oplog s)) = Some err \<Longrightarrow>
   Projects_update_mods e pid tkey mods s = (Inl (StoreFailure err), s\<lparr>oplog := oplog s @ [Op_update]\<rparr>)"
  by (simp add: Projects_update_mods_def and_then_Inl store_call_fault)

lemma find_append_None:
  "find P xs = None \<Longrightarrow> find P (xs @ ys) = find P ys"
  by (induction xs) (auto split: if_splits)

lemma find_None_list_ex: "find P xs = None \<longleftrightarrow> \<not> list_ex P xs"
  by (auto simp: find_None_iff list_ex_iff)

lemma exists_project_find:
  "projectId \<in> project_id ` set ps \<Longrightarrow> \<exists>p. find (selects projectId None) ps = Some p"
  by (cases "find (selects projectId None) ps") (auto simp: find_None_iff selects_def)

lemma findTemplate_present:
  assumes "can e [''responses:r''] projectId"
    and "store_fault e (length (oplog s)) = None"
    and "find (selects projectId (Some k)) (Projects s) = Some p"
    and "find (\<lambda>t. key t = k) (templates p) = Some t"
    and "list_ex (\<lambda>v. lang v = lang_or_en l) (tvalues t)"
  shows "project_findTemplate e projectId k l s = (Inr t, s\<lparr>oplog := oplog s @ [Op_find]\<rparr>)"
  using assms
  by (simp add: project_findTemplate_def checkIfCan_ok and_then_ret and_then_def try_catch_def
      Projects_findOne_ok ret_def)

lemma findTemplate_needs_permission:
  "project_findTemplate e projectId k l s = (Inr t1, s1) \<Longrightarrow> can e [''responses:r''] projectId"
  by (cases "can e [''responses:r''] projectId")
     (simp_all add: project_findTemplate_def checkIfCan_denied and_then_throw throw_def)

lemma findTemplate_needs_find:
  assumes "project_findTemplate e projectId k l s = (Inr t1, s1)"
  shows "store_fault e (length (oplog s)) = None"
proof (cases "store_fault e (length (oplog s))")
  case None
  then show ?thesis .
next
  case (Some err)
  then show ?thesis
    using assms findTemplate_needs_permission [OF assms]
    by (simp add: project_findTemplate_def checkIfCan_ok and_then_ret and_then_def try_catch_def
        Projects_findOne_fault rethrow_wrapped_def throw_def)
qed

lemma selects_key_find:
  "selects projectId (Some k) p \<Longrightarrow> \<exists>t. find (\<lambda>t. key t = k) (templates p) = Some t"
  by (cases "find (\<lambda>t. key t = k) (templates p)") (auto simp: selects_def find_None_list_ex)

lemma findTemplate_ensures:
  assumes ex: "projectId \<in> project_id ` set (Projects s)"
    and run: "project_findTemplate e projectId k l s = (Inr t1, s1)"
  shows "\<exists>p. find (selects projectId (Some k)) (Projects s1) = Some p
            \<and> find (\<lambda>t. key t = k) (templates p) = Some t1
            \<and> list_ex (\<lambda>v. lang v = lang_or_en l) (tvalues t1)"
proof -
  note c = findTemplate_needs_permission [OF run]
  note f0 = findTemplate_needs_find [OF run]
  define v where "v = newSeq e k (lang_or_en l)"
  have lv: "lang v = lang_or_en l"
    by (simp add: v_def newSeq_def)
  show ?thesis
  proof (cases "find (selects projectId (Some k)) (Projects s)")
    case None
    define t where "t = \<lparr>key = k, tvalues = [v], match_nlu_intents = []\<rparr>"
    define f where "f = apply_modifiers None [Push_templates [t], Set_responsesUpdatedAt (now e)]"
    obtain p0 where p0: "find (selects projectId None) (Projects s) = Some p0"
      using exists_project_find [OF ex] by blast
    have ex0: "list_ex (selects projectId None) (Projects s)"
      using p0 by (rule find_Some_list_ex)
    have f1: "store_fault e (Suc (length (oplog s))) = None"
    proof (cases "store_fault e (Suc (length (oplog s)))")
      case (Some err)
      then show ?thesis
        using run c f0 None
        by (simp add: project_findTemplate_def checkIfCan_ok and_then_ret and_then_def
            try_catch_def Projects_findOne_ok Projects_update_mods_fault rethrow_wrapped_def
            throw_def Let_def)
    qed simp
    have res: "t1 = t \<and> s1 = s\<lparr>Projects := update_first_where (selects projectId None) f (Projects s),
                                oplog := oplog s @ [Op_find, Op_update]\<rparr>"
      using run c f0 f1 None ex0
      by (auto simp add: project_findTemplate_def checkIfCan_ok and_then_ret and_then_def
          try_catch_def Projects_findOne_ok Projects_update_mods_ok ret_def Let_def
          v_def t_def f_def)
    have fp0: "f p0 = p0\<lparr>templates := templates p0 @ [t], responsesUpdatedAt := Some (now e)\<rparr>"
      by (simp add: f_def apply_modifiers_def)
    have id0: "project_id p0 = projectId"
      using find_Some_holds [OF p0] by (simp add: selects_def)
    have in0: "p0 \<in> set (Projects s)"
      using p0 by (auto simp: find_Some_iff)
    have nok: "\<not> list_ex (\<lambda>t. key t = k) (templates p0)"
      using None id0 in0 by (auto simp: find_None_iff selects_def list_ex_iff)
    have ft: "find (\<lambda>t. key t = k) (templates (f p0)) = Some t"
      using nok by (simp add: fp0 find_append_None find_None_list_ex t_def)
    have sel: "selects projectId (Some k) (f p0)"
      using id0 by (simp add: selects_def fp0 t_def)
    have "find (selects projectId (Some k)) (update_first_where (selects projectId None) f (Projects s))
            = Some (f p0)"
      using find_update_first_where [of "selects projectId (Some k)" "selects projectId None"
          "Projects s" p0 f] p0 sel
      by (simp add: selects_def)
    then show ?thesis
      using res ft lv by (auto simp: t_def)
  next
    case (Some p)
    have sel: "selects projectId (Some k) p"
      using Some by (rule find_Some_holds)
    obtain t where t: "find (\<lambda>t. key t = k) (templates p) = Some t"
      using selects_key_find [OF sel] by blast
    have kt: "key t = k"
      using t by (rule find_Some_holds)
    show ?thesis
    proof (cases "list_ex (\<lambda>v. lang v = lang_or_en l) (tvalues t)")
      case True
      have "t1 = t \<and> s1 = s\<lparr>oplog := oplog s @ [Op_find]\<rparr>"
        using run findTemplate_present [OF c f0 Some t True] by simp
      then show ?thesis
        using Some t True by simp
    next
      case False
      define g where "g = (\<lambda>t::template. t\<lparr>tvalues := tvalues t @ [v]\<rparr>)"
      define f where "f = apply_modifiers (Some k) [Push_values_pos v, Set_responsesUpdatedAt (now e)]"
      have ex0: "list_ex (selects projectId (Some k)) (Projects s)"
        using Some by (rule find_Some_list_ex)
      have f1: "store_fault e (Suc (length (oplog s))) = None"
      proof (cases "store_fault e (Suc (length (oplog s)))")
        case (Some err)
        then show ?thesis
          using run c f0 \<open>find (selects projectId (Some k)) (Projects s) = Some p\<close> t False
          by (simp add: project_findTemplate_def checkIfCan_ok and_then_ret and_then_def
              try_catch_def Projects_findOne_ok Projects_update_mods_fault rethrow_wrapped_def
              throw_def)
      qed simp
      have res: "t1 = g t \<and> s1 = s\<lparr>Projects := update_first_where (selects projectId (Some k)) f (Projects s),
                                  oplog := oplog s @ [Op_find, Op_update]\<rparr>"
        using run c f0 f1 Some t False ex0
        by (auto simp add: project_findTemplate_def checkIfCan_ok and_then_ret and_then_def
            try_catch_def Projects_findOne_ok Projects_update_mods_ok ret_def v_def g_def f_def)
      have fp: "f p = p\<lparr>templates := update_first_where (\<lambda>t. key t = k) g (templates p),
                        responsesUpdatedAt := Some (now e)\<rparr>"
        by (simp add: f_def g_def apply_modifiers_def)
      have ft: "find (\<lambda>t. key t = k) (templates (f p)) = Some (g t)"
        using find_update_first_where [of "\<lambda>t. key t = k" "\<lambda>t. key t = k" "templates p" t g] t kt
        by (simp add: fp g_def)
      have sel': "selects projectId (Some k) (f p)"
        using sel find_Some_list_ex [OF ft] by (simp add: selects_def fp)
      have "find (selects projectId (Some k)) (update_first_where (selects projectId (Some k)) f (Projects s))
              = Some (f p)"
        using find_update_first_where [of "selects projectId (Some k)" "selects projectId (Some k)"
            "Projects s" p f] Some sel'
        by simp
      then show ?thesis
        using res ft lv by (auto simp: g_def)
    qed
  qed
qed

lemma example_first_findTemplate:
  "project_findTemplate example_env ''P'' ''utter_greet'' (Some ''fr'') example_db
     = (Inr utter_greet_fr, example_db_fr)"
  by (simp add: project_findTemplate_def checkIfCan_def and_then_ret and_then_def try_catch_def
      Projects_findOne_def Projects_update_mods_def store_call_def ret_def apply_modifiers_def
      selects_def newSeq_def lang_or_en_def
      example_env_def example_db_def example_db_fr_def example_project_def
      utter_greet_def utter_greet_fr_def greet_en_def greet_fr_def)

text \<open>
  C5. \<^verbatim>\<open>project.findTemplate\<close> is idempotent for an existing language. On a project that
  exists, once a call with \<open>(projectId, key, lang)\<close> has returned, the template stored
  under the key is the one it returned and has a value for the language; a second call
  with the same arguments (by any caller holding \<^verbatim>\<open>responses:r\<close>, at any later time)
  returns that same template and changes nothing: its one store call is the query, so the
  projects, the template's values and \<^verbatim>\<open>responsesUpdatedAt\<close> are as the first call left
  them.
\<close>

theorem findTemplate_idempotent:
  assumes "projectId \<in> project_id ` set (Projects s)"
    and "project_findTemplate e projectId k l s = (Inr t1, s1)"
    and "can e' [''responses:r''] projectId"
    and "store_fault e' (length (oplog s1)) = None"
  shows "project_findTemplate e' projectId k l s1 = (Inr t1, s1\<lparr>oplog := oplog s1 @ [Op_find]\<rparr>)
       \<and> (\<exists>p. find (selects projectId (Some k)) (Projects s1) = Some p
                \<and> find (\<lambda>t. key t = k) (templates p) = Some t1
                \<and> list_ex (\<lambda>v. lang v = lang_or_en l) (tvalues t1))"
proof -
  obtain p where p: "find (selects projectId (Some k)) (Projects s1) = Some p"
    "find (\<lambda>t. key t = k) (templates p) = Some t1"
    "list_ex (\<lambda>v. lang v = lang_or_en l) (tvalues t1)"
    using findTemplate_ensures [OF assms(1,2)] by blast
  have "project_findTemplate e' projectId k l s1 = (Inr t1, s1\<lparr>oplog := oplog s1 @ [Op_find]\<rparr>)"
    using p assms(3,4) by (simp add: findTemplate_present)
  then show ?thesis
    using p by blast
qed

theorem findTemplate_idempotent_witness:
  "project_findTemplate example_env ''P'' ''utter_greet'' (Some ''fr'') example_db
     = (Inr utter_greet_fr, example_db_fr)
   \<and> project_findTemplate later_env ''P'' ''utter_greet'' (Some ''fr'') example_db_fr
     = (Inr utter_greet_fr, example_db_fr\<lparr>oplog := [Op_find, Op_update, Op_find]\<rparr>)"
proof -
  have x: "''P'' \<in> project_id ` set (Projects example_db)"
    by (simp add: example_db_def example_project_def)
  have c: "can later_env [''responses:r''] ''P''"
    by (simp add: later_env_def example_env_def)
  have f: "store_fault later_env (length (oplog example_db_fr)) = None"
    by (simp add: later_env_def example_env_def)
  have l: "oplog example_db_fr = [Op_find, Op_update]"
    by (simp add: example_db_fr_def)
  show ?thesis
    using findTemplate_idempotent [OF x example_first_findTemplate c f] example_first_findTemplate l
    by simp
qed

section \<open>Importing templates\<close>

lemma intersection_loop_keys:
  "key ` set (intersection_loop seen old new) = (key ` set old \<inter> key ` set new) - set seen"
  by (induction old arbitrary: seen) auto

lemma pull_intersection:
  "filter (\<lambda>t. key t \<notin> key ` set (intersectionBy_key old new)) old
   = filter (\<lambda>t. key t \<notin> key ` set new) old"
  by (rule filter_cong) (simp_all add: intersectionBy_key_def intersection_loop_keys)

lemma update_first_where_twice:
  "(\<And>x. P x \<Longrightarrow> P (f x)) \<Longrightarrow>
   update_first_where P g (update_first_where P f xs) = update_first_where P (\<lambda>x. g (f x)) xs"
  by (induction xs) auto

lemma list_ex_update_first_where:
  "(\<And>x. P x \<Longrightarrow> P (f x)) \<Longrightarrow> list_ex P (update_first_where P f xs) = list_ex P xs"
  by (induction xs) auto

lemma project_id_apply_modifier: "project_id (apply_modifier pos m p) = project_id p"
  by (cases m) (auto split: option.splits)

lemma project_id_apply_modifiers: "project_id (apply_modifiers pos mods p) = project_id p"
  unfolding apply_modifiers_def
  by (induction mods arbitrary: p) (auto simp: project_id_apply_modifier)

lemma selects_None_apply_modifiers:
  "selects pid None (apply_modifiers pos mods p) = selects pid None p"
  by (simp add: selects_def project_id_apply_modifiers)

lemma import_run:
  assumes "can e [''responses:w''] projectId"
    and "store_fault e (length (oplog s)) = None"
    and "store_fault e (Suc (length (oplog s))) = None"
    and "store_fault e (Suc (Suc (length (oplog s)))) = None"
    and "find (selects projectId None) (Projects s) = Some p"
    and "arg = Structured new \<or> (\<exists>str. arg = Serialized str \<and> JSON_parse e str = Some new)"
  shows "templates_import e projectId arg s =
    (Inr (), s\<lparr>Projects := update_first_where (selects projectId None)
                 (\<lambda>q. p\<lparr>templates := filter (\<lambda>t. key t \<notin> key ` set new) (templates p) @ new,
                         responsesUpdatedAt := Some (now e)\<rparr>) (Projects s),
               oplog := oplog s @ [Op_find, Op_update, Op_update]\<rparr>)"
proof -
  define ks where "ks = map key (intersectionBy_key (templates p) new)"
  define f1 where "f1 = apply_modifiers None [Pull_templates_keys ks]"
  define f2 where "f2 = apply_modifiers None [Push_templates new, Set_responsesUpdatedAt (now e)]"
  define s0 where "s0 = s\<lparr>oplog := oplog s @ [Op_find]\<rparr>"
  define s1 where "s1 = s\<lparr>Projects := update_first_where (selects projectId None) f1 (Projects s),
                         oplog := oplog s @ [Op_find, Op_update]\<rparr>"
  define s2 where "s2 = s\<lparr>Projects := update_first_where (selects projectId None)
                 (\<lambda>q. p\<lparr>templates := filter (\<lambda>t. key t \<notin> key ` set new) (templates p) @ new,
                         responsesUpdatedAt := Some (now e)\<rparr>) (Projects s),
               oplog := oplog s @ [Op_find, Op_update, Op_update]\<rparr>"
  have ex: "list_ex (selects projectId None) (Projects s)"
    using assms(5) by (rule find_Some_list_ex)
  have ex1: "list_ex (selects projectId None) (update_first_where (selects projectId None) f1 (Projects s))"
    using ex by (simp add: list_ex_update_first_where f1_def selects_None_apply_modifiers)
  have two: "update_first_where (selects projectId None) f2
               (update_first_where (selects projectId None) f1 (Projects s))
             = update_first_where (selects projectId None) (\<lambda>x. f2 (f1 x)) (Projects s)"
    by (rule update_first_where_twice) (simp add: f1_def selects_None_apply_modifiers)
  have fp: "f2 (f1 p) = p\<lparr>templates := filter (\<lambda>t. key t \<notin> key ` set new) (templates p) @ new,
                          responsesUpdatedAt := Some (now e)\<rparr>"
    by (simp add: f1_def f2_def apply_modifiers_def ks_def pull_intersection)
  have const: "update_first_where (selects projectId None) (\<lambda>x. f2 (f1 x)) (Projects s)
             = update_first_where (selects projectId None)
                 (\<lambda>q. p\<lparr>templates := filter (\<lambda>t. key t \<notin> key ` set new) (templates p) @ new,
                         responsesUpdatedAt := Some (now e)\<rparr>) (Projects s)"
    using update_first_where_const [OF assms(5), of "\<lambda>x. f2 (f1 x)"] fp by simp
  have r0: "Projects_findOne e projectId None Fields_templates s
              = (Inr (Some (project_fields Fields_templates p)), s0)"
    using assms(2,5) by (simp add: Projects_findOne_ok s0_def)
  have r1: "Projects_update_mods e projectId None [Pull_templates_keys ks] s0 = (Inr 1, s1)"
    using assms(3) ex by (simp add: Projects_update_mods_ok s0_def s1_def f1_def)
  have r2: "Projects_update_mods e projectId None
              [Push_templates new, Set_responsesUpdatedAt (now e)] s1 = (Inr 1, s2)"
    using assms(4) ex1 by (simp add: Projects_update_mods_ok s1_def s2_def f2_def [symmetric] two const)
  have body: "try_catch
               (and_then (Projects_update_mods e projectId None [Pull_templates_keys ks]) (\<lambda>_.
                and_then (Projects_update_mods e projectId None
                            [Push_templates new, Set_responsesUpdatedAt (now e)]) (\<lambda>_.
                ret ())))
               rethrow_wrapped s0 = (Inr (), s2)"
    by (simp add: try_catch_def and_then_def r1 r2 ret_def)
  have parse: "(case arg of
                  Serialized str \<Rightarrow> (case JSON_parse e str of None \<Rightarrow> throw SyntaxError | Some ts \<Rightarrow> ret ts)
                | Structured ts \<Rightarrow> ret ts) = ret new"
    using assms(6) by auto
  have "templates_import e projectId arg s = (Inr (), s2)"
    unfolding templates_import_def parse
    using assms(1) body
    by (simp add: checkIfCan_ok and_then_ret and_then_def r0 templates_of_def Let_def ks_def)
  then show ?thesis
    by (simp add: s2_def)
qed

lemma example_find_P2:
  "find (selects ''P'' None) (Projects example_db2) = Some example_project2"
  by (simp add: example_db2_def example_project2_def selects_def)

text \<open>
  C7. For a project with templates \<open>T\<close> and a payload \<open>N\<close>, given as a list or as a string
  that parses to the list, \<^verbatim>\<open>templates.import\<close> leaves the project with \<open>T\<close> without
  every template whose key occurs in \<open>N\<close>, followed by \<open>N\<close> in its order; the templates of
  \<open>T\<close> whose keys do not occur in \<open>N\<close> are as they were. \<^verbatim>\<open>responsesUpdatedAt\<close> is set. The
  caller holds \<^verbatim>\<open>responses:w\<close> and the store does not fail.
\<close>

theorem import_replaces_by_key:
  assumes "can e [''responses:w''] projectId"
    and "store_fault e (length (oplog s)) = None"
    and "store_fault e (Suc (length (oplog s))) = None"
    and "store_fault e (Suc (Suc (length (oplog s)))) = None"
    and "find (selects projectId None) (Projects s) = Some p"
    and "arg = Structured new \<or> (\<exists>str. arg = Serialized str \<and> JSON_parse e str = Some new)"
  shows
    "(let p' = p\<lparr>templates := filter (\<lambda>t. key t \<notin> key ` set new) (templates p) @ new,
                     responsesUpdatedAt := Some (now e)\<rparr>;
          s' = s\<lparr>Projects := update_first_where (selects projectId None) (\<lambda>q. p') (Projects s),
                 oplog := oplog s @ [Op_find, Op_update, Op_update]\<rparr>
      in templates_import e projectId arg s = (Inr (), s')
         \<and> find (selects projectId None) (Projects s') = Some p'
         \<and> filter (\<lambda>t. key t \<notin> key ` set new) (templates p')
             = filter (\<lambda>t. key t \<notin> key ` set new) (templates p))"
proof -
  define p' where "p' = p\<lparr>templates := filter (\<lambda>t. key t \<notin> key ` set new) (templates p) @ new,
                     responsesUpdatedAt := Some (now e)\<rparr>"
  have sel: "selects projectId None p'"
    using find_Some_holds [OF assms(5)] by (simp add: selects_def p'_def)
  have found: "find (selects projectId None)
                 (update_first_where (selects projectId None) (\<lambda>q. p') (Projects s)) = Some p'"
    using find_update_first_where [of "selects projectId None" "selects projectId None"
        "Projects s" p "\<lambda>q. p'"] assms(5) sel by simp
  have rest: "filter (\<lambda>t. key t \<notin> key ` set new) (templates p')
             = filter (\<lambda>t. key t \<notin> key ` set new) (templates p)"
    by (simp add: p'_def filter_empty_conv)
  show ?thesis
    using import_run [OF assms] found rest
    unfolding Let_def p'_def [symmetric]
    by simp
qed

theorem import_replaces_by_key_witness:
  "templates_import example_env ''P'' (Structured [utter_greet_new]) example_db2 =
     (Inr (), example_db2\<lparr>Projects := [example_project2\<lparr>templates := [utter_bye, utter_greet_new],
                                                         responsesUpdatedAt := Some 1000\<rparr>],
                          oplog := [Op_find, Op_update, Op_update]\<rparr>)
   \<and> templates_import parsing_env ''P'' (Serialized ''[utter_greet_new]'') example_db2 =
     (Inr (), example_db2\<lparr>Projects := [example_project2\<lparr>templates := [utter_bye, utter_greet_new],
                                                         responsesUpdatedAt := Some 1000\<rparr>],
                          oplog := [Op_find, Op_update, Op_update]\<rparr>)"
proof -
  have a: "Structured [utter_greet_new] = Structured [utter_greet_new]
           \<or> (\<exists>str. Structured [utter_greet_new] = Serialized str
                  \<and> JSON_parse example_env str = Some [utter_greet_new])"
    by simp
  have b: "Serialized ''[utter_greet_new]'' = Structured [utter_greet_new]
           \<or> (\<exists>str. Serialized ''[utter_greet_new]'' = Serialized str
                  \<and> JSON_parse parsing_env str = Some [utter_greet_new])"
    by (simp add: parsing_env_def)
  have c: "can parsing_env [''responses:w''] ''P''"
    by (simp add: parsing_env_def example_env_def)
  have f: "store_fault parsing_env n = None" for n
    by (simp add: parsing_env_def example_env_def)
  have n: "now parsing_env = 1000" "now example_env = 1000"
    by (simp_all add: parsing_env_def example_env_def)
  have u: "update_first_where (selects ''P'' None) (\<lambda>q. r) (Projects example_db2) = [r]" for r
    by (simp add: example_db2_def example_project2_def selects_def)
  have t: "filter (\<lambda>t. key t \<notin> key ` set [utter_greet_new]) (templates example_project2) = [utter_bye]"
    by (simp add: example_project2_def utter_greet_def utter_bye_def utter_greet_new_def)
  have l: "oplog example_db2 = []"
    by (simp add: example_db2_def)
  show ?thesis
    using import_replaces_by_key [OF example_env_can example_env_no_fault example_env_no_fault
        example_env_no_fault example_find_P2 a]
      import_replaces_by_key [OF c f f f example_find_P2 b]
    unfolding Let_def u t n l
    by simp
qed

section \<open>Inserting a template\<close>

lemma insertTemplate_collision_run:
  assumes "can e [''responses:w''] projectId"
    and "store_fault e (length (oplog s)) = None"
    and "find (selects projectId None) (Projects s) = Some p"
    and "key item \<in> key ` set (templates p)"
  shows "project_insertTemplate e projectId item s =
           (Inl (Meteor_Error (ErrStr ''template-collision'') (Some (collision_message (key item)))),
            s\<lparr>oplog := oplog s @ [Op_find]\<rparr>)"
proof -
  have "list_ex (\<lambda>t. key t = key item) (templates p)"
    using assms(4) by (auto simp: list_ex_iff)
  then show ?thesis
    using assms(1-3)
    by (simp add: project_insertTemplate_def checkIfCan_ok and_then_ret and_then_def
        Projects_findOne_ok templates_of_def throw_def)
qed

lemma insertTemplate_append_run:
  assumes "can e [''responses:w''] projectId"
    and "store_fault e (length (oplog s)) = None"
    and "store_fault e (Suc (length (oplog s))) = None"
    and "find (selects projectId None) (Projects s) = Some p"
    and "key item \<notin> key ` set (templates p)"
  shows "project_insertTemplate e projectId item s =
           (Inr (), s\<lparr>Projects := update_first_where (selects projectId None)
                         (\<lambda>q. p\<lparr>templates := templates p @ [item],
                                 responsesUpdatedAt := Some (now e)\<rparr>) (Projects s),
                       oplog := oplog s @ [Op_find, Op_update]\<rparr>)"
proof -
  define f where "f = apply_modifiers None [Push_templates [item], Set_responsesUpdatedAt (now e)]"
  have no: "\<not> list_ex (\<lambda>t. key t = key item) (templates p)"
    using assms(5) by (force simp: list_ex_iff image_iff)
  have ex: "list_ex (selects projectId None) (Projects s)"
    using assms(4) by (rule find_Some_list_ex)
  have fp: "f p = p\<lparr>templates := templates p @ [item], responsesUpdatedAt := Some (now e)\<rparr>"
    by (simp add: f_def apply_modifiers_def)
  have const: "update_first_where (selects projectId None) f (Projects s)
             = update_first_where (selects projectId None)
                 (\<lambda>q. p\<lparr>templates := templates p @ [item], responsesUpdatedAt := Some (now e)\<rparr>)
                 (Projects s)"
    using update_first_where_const [OF assms(4), of f] fp by simp
  show ?thesis
    using assms(1-4) no ex
    by (simp add: project_insertTemplate_def checkIfCan_ok and_then_ret and_then_def try_catch_def
        Projects_findOne_ok Projects_update_mods_ok templates_of_def ret_def
        f_def [symmetric] const)
qed

text \<open>
  C8. \<^verbatim>\<open>project.insertTemplate(projectId, item)\<close> throws the \<^verbatim>\<open>template-collision\<close> error
  exactly when the project has a template whose key is \<^verbatim>\<open>item.key\<close>; then the projects are
  as they were. Otherwise the item is appended to the project's templates (and
  \<^verbatim>\<open>responsesUpdatedAt\<close> is set). The caller holds \<^verbatim>\<open>responses:w\<close>, the project exists
  and the store does not fail.
\<close>

theorem insertTemplate_collision_iff:
  assumes "can e [''responses:w''] projectId"
    and "store_fault e (length (oplog s)) = None"
    and "store_fault e (Suc (length (oplog s))) = None"
    and "find (selects projectId None) (Projects s) = Some p"
  shows "(fst (project_insertTemplate e projectId item s) =
            Inl (Meteor_Error (ErrStr ''template-collision'') (Some (collision_message (key item))))
          \<longleftrightarrow> key item \<in> key ` set (templates p))
       \<and> (key item \<in> key ` set (templates p) \<longrightarrow>
            Projects (snd (project_insertTemplate e projectId item s)) = Projects s)
       \<and> (key item \<notin> key ` set (templates p) \<longrightarrow>
            project_insertTemplate e projectId item s =
              (Inr (), s\<lparr>Projects := update_first_where (selects projectId None)
                            (\<lambda>q. p\<lparr>templates := templates p @ [item],
                                    responsesUpdatedAt := Some (now e)\<rparr>) (Projects s),
                          oplog := oplog s @ [Op_find, Op_update]\<rparr>))"
proof (cases "key item \<in> key ` set (templates p)")
  case True
  then show ?thesis
    using insertTemplate_collision_run [OF assms(1,2,4) True] by simp
next
  case False
  then show ?thesis
    using insertTemplate_append_run [OF assms False] by simp
qed

theorem insertTemplate_collision_iff_witness:
  "project_insertTemplate example_env ''P'' utter_greet_new example_db =
     (Inl (Meteor_Error (ErrStr ''template-collision'')
             (Some ''Can not add template because one already exists with the key utter_greet'')),
      example_db\<lparr>oplog := [Op_find]\<rparr>)
   \<and> project_insertTemplate example_env ''P'' utter_bye example_db =
     (Inr (), example_db\<lparr>Projects := [example_project\<lparr>templates := [utter_greet, utter_bye],
                                                       responsesUpdatedAt := Some 1000\<rparr>],
                         oplog := [Op_find, Op_update]\<rparr>)"
proof -
  have p: "find (selects ''P'' None) (Projects example_db) = Some example_project"
    by (simp add: example_db_def example_project_def selects_def)
  have k1: "key utter_greet_new \<in> key ` set (templates example_project)"
    by (simp add: example_project_def utter_greet_def utter_greet_new_def)
  have k2: "key utter_bye \<notin> key ` set (templates example_project)"
    by (simp add: example_project_def utter_greet_def utter_bye_def)
  have u: "update_first_where (selects ''P'' None) (\<lambda>q. r) (Projects example_db) = [r]" for r
    by (simp add: example_db_def example_project_def selects_def)
  have m: "collision_message (key utter_greet_new)
           = ''Can not add template because one already exists with the key utter_greet''"
    by (simp add: collision_message_def utter_greet_new_def)
  have l: "oplog example_db = []" "now example_env = 1000" "templates example_project = [utter_greet]"
    by (simp_all add: example_db_def example_env_def example_project_def)
  have a: "fst (project_insertTemplate example_env ''P'' utter_greet_new example_db) =
             Inl (Meteor_Error (ErrStr ''template-collision'')
                    (Some ''Can not add template because one already exists with the key utter_greet''))"
    using insertTemplate_collision_iff [OF example_env_can example_env_no_fault example_env_no_fault p,
        of utter_greet_new] k1 m by simp
  have b: "project_insertTemplate example_env ''P'' utter_bye example_db =
     (Inr (), example_db\<lparr>Projects := [example_project\<lparr>templates := [utter_greet, utter_bye],
                                                       responsesUpdatedAt := Some 1000\<rparr>],
                         oplog := [Op_find, Op_update]\<rparr>)"
    using insertTemplate_collision_iff [OF example_env_can example_env_no_fault example_env_no_fault p,
        of utter_bye] k2 u l by simp
  have c: "snd (project_insertTemplate example_env ''P'' utter_greet_new example_db)
           = example_db\<lparr>oplog := [Op_find]\<rparr>"
    using insertTemplate_collision_run [OF example_env_can example_env_no_fault p k1] l by simp
  show ?thesis
    using a b c by (simp add: prod_eq_iff)
qed

section \<open>Mutations and the timestamp\<close>




































section \<open>The allowed values of the user role schema\<close>

lemma word_plus_iff:
  "r \<in> set (word_plus s) \<longleftrightarrow> (\<exists>u. u \<noteq> [] \<and> list_all word_char u \<and> s = u @ r)"
proof (induction s)
  case Nil
  then show ?case by simp
next
  case (Cons c cs)
  show ?case
  proof
    assume "r \<in> set (word_plus (c # cs))"
    then have w: "word_char c" and "r = cs \<or> r \<in> set (word_plus cs)"
      by (auto split: if_splits)
    then show "\<exists>u. u \<noteq> [] \<and> list_all word_char u \<and> c # cs = u @ r"
    proof (elim disjE)
      assume "r = cs"
      then have "[c] \<noteq> [] \<and> list_all word_char [c] \<and> c # cs = [c] @ r"
        using w by simp
      then show ?thesis by blast
    next
      assume "r \<in> set (word_plus cs)"
      then obtain u where "u \<noteq> []" "list_all word_char u" "cs = u @ r"
        using Cons.IH by blast
      then have "c # u \<noteq> [] \<and> list_all word_char (c # u) \<and> c # cs = (c # u) @ r"
        using w by simp
      then show ?thesis by blast
    qed
  next
    assume "\<exists>u. u \<noteq> [] \<and> list_all word_char u \<and> c # cs = u @ r"
    then obtain u where u: "u \<noteq> []" "list_all word_char u" "c # cs = u @ r"
      by blast
    then obtain u' where u': "u = c # u'"
      by (cases u) auto
    have w: "word_char c" and all: "list_all word_char u'" and cs: "cs = u' @ r"
      using u u' by auto
    show "r \<in> set (word_plus (c # cs))"
    proof (cases "u' = []")
      case True
      then show ?thesis using w cs by simp
    next
      case False
      then have "r \<in> set (word_plus cs)"
        using Cons.IH all cs by blast
      then show ?thesis using w by simp
    qed
  qed
qed

lemma word_plus_nonempty_iff:
  "word_plus r \<noteq> [] \<longleftrightarrow> (\<exists>v post. v \<noteq> [] \<and> list_all word_char v \<and> r = v @ post)"
proof
  assume "word_plus r \<noteq> []"
  then obtain x where "x \<in> set (word_plus r)"
    by (cases "word_plus r") auto
  then show "\<exists>v post. v \<noteq> [] \<and> list_all word_char v \<and> r = v @ post"
    using word_plus_iff by blast
next
  assume "\<exists>v post. v \<noteq> [] \<and> list_all word_char v \<and> r = v @ post"
  then have "\<exists>post. post \<in> set (word_plus r)"
    using word_plus_iff by blast
  then show "word_plus r \<noteq> []"
    by auto
qed

lemma match_here_iff:
  "match_here s \<longleftrightarrow>
     (\<exists>u v post. u \<noteq> [] \<and> v \<noteq> [] \<and> list_all word_char u \<and> list_all word_char v \<and>
        s = u @ [CHR '':''] @ v @ post)"
proof
  assume "match_here s"
  then obtain r where r: "r \<in> set (word_plus s)"
    and m: "(case r of [] \<Rightarrow> False | d # r' \<Rightarrow> d = CHR '':'' \<and> word_plus r' \<noteq> [])"
    by (auto simp: match_here_def list_ex_iff)
  from m obtain r' where r': "r = CHR '':'' # r'" and ne: "word_plus r' \<noteq> []"
    by (cases r) auto
  from r obtain u where u: "u \<noteq> []" "list_all word_char u" "s = u @ r"
    using word_plus_iff by blast
  from ne obtain v post where v: "v \<noteq> []" "list_all word_char v" "r' = v @ post"
    using word_plus_nonempty_iff by blast
  have "s = u @ [CHR '':''] @ v @ post"
    using u r' v by simp
  then show "\<exists>u v post. u \<noteq> [] \<and> v \<noteq> [] \<and> list_all word_char u \<and> list_all word_char v \<and>
        s = u @ [CHR '':''] @ v @ post"
    using u v by blast
next
  assume "\<exists>u v post. u \<noteq> [] \<and> v \<noteq> [] \<and> list_all word_char u \<and> list_all word_char v \<and>
        s = u @ [CHR '':''] @ v @ post"
  then obtain u v post where u: "u \<noteq> []" "list_all word_char u"
    and v: "v \<noteq> []" "list_all word_char v" and s: "s = u @ [CHR '':''] @ v @ post"
    by blast
  have "CHR '':'' # v @ post \<in> set (word_plus s)"
    using u s word_plus_iff [of "CHR '':'' # v @ post" s] by auto
  moreover have "word_plus (v @ post) \<noteq> []"
    using v word_plus_nonempty_iff [of "v @ post"] by blast
  ultimately show "match_here s"
    unfolding match_here_def list_ex_iff
    by (intro bexI [of _ "CHR '':'' # v @ post"]) simp_all
qed

lemma regex_match_iff: "regex_match s \<longleftrightarrow> (\<exists>pre rest. s = pre @ rest \<and> match_here rest)"
proof (induction s)
  case Nil
  then show ?case by (simp add: match_here_def)
next
  case (Cons c cs)
  show ?case
  proof
    assume "regex_match (c # cs)"
    then have "match_here (c # cs) \<or> regex_match cs"
      by simp
    then show "\<exists>pre rest. c # cs = pre @ rest \<and> match_here rest"
    proof (elim disjE)
      assume "match_here (c # cs)"
      then have "c # cs = [] @ (c # cs) \<and> match_here (c # cs)" by simp
      then show ?thesis by blast
    next
      assume "regex_match cs"
      then obtain pre rest where "cs = pre @ rest" "match_here rest"
        using Cons.IH by blast
      then have "c # cs = (c # pre) @ rest \<and> match_here rest" by simp
      then show ?thesis by blast
    qed
  next
    assume "\<exists>pre rest. c # cs = pre @ rest \<and> match_here rest"
    then obtain pre rest where p: "c # cs = pre @ rest" "match_here rest"
      by blast
    show "regex_match (c # cs)"
    proof (cases pre)
      case Nil
      then have "match_here (c # cs)" using p by simp
      then show ?thesis by simp
    next
      case (Cons d pre')
      then have "cs = pre' @ rest" using p by simp
      then have "regex_match cs" using Cons.IH p(2) by blast
      then show ?thesis by simp
    qed
  qed
qed

lemma regex_match_scope_action: "regex_match name \<longleftrightarrow> scope_action_shaped name"
proof
  assume "regex_match name"
  then obtain pre rest where "name = pre @ rest" "match_here rest"
    using regex_match_iff by blast
  then show "scope_action_shaped name"
    unfolding scope_action_shaped_def match_here_iff by blast
next
  assume "scope_action_shaped name"
  then obtain pre u v post where "name = pre @ u @ [CHR '':''] @ v @ post" "u \<noteq> []" "v \<noteq> []"
    "list_all word_char u" "list_all word_char v"
    unfolding scope_action_shaped_def by blast
  then have "name = pre @ (u @ [CHR '':''] @ v @ post) \<and> match_here (u @ [CHR '':''] @ v @ post)"
    using match_here_iff by blast
  then show "regex_match name"
    using regex_match_iff by blast
qed

lemma example_roles:
  "roles_allowedValues [\<lparr>role_id = ''admin''\<rparr>, \<lparr>role_id = ''nlu-data:r''\<rparr>, \<lparr>role_id = ''stories:w''\<rparr>,
                        \<lparr>role_id = ''a:''\<rparr>, \<lparr>role_id = ''x y:z w''\<rparr>]
   = [''admin'', ''a:'']"
  by (simp add: roles_allowedValues_def match_here_def word_char_def)

text \<open>
  C10. For any roles and projects, the allowed values of a role-name entry of
  \<^verbatim>\<open>UserRoleSchema\<close> are exactly the identifiers of the roles that have no substring made
  of word characters, a colon and word characters, and the allowed values of its project
  field are exactly the identifiers of the projects and \<^verbatim>\<open>GLOBAL\<close>.
\<close>

theorem UserRoleSchema_allowedValues:
  "set (roles_allowedValues roles) = {name \<in> role_id ` set roles. \<not> scope_action_shaped name}
   \<and> set (project_allowedValues ps) = project_id ` set ps \<union> {''GLOBAL''}"
  by (auto simp: roles_allowedValues_def project_allowedValues_def regex_match_scope_action)

end
